theory Spec2Isabelle
  imports Main "HOL-Library.Word"
begin

text \<open>
  A shallow embedding of the Google Ads script \<open>kw-ad-disapproval-checker.js\<close>. The
  script's helpers end in an underscore (\<open>escHtml_\<close>, \<open>td_\<close>, \<open>safeCall_\<close>, ...); an
  Isabelle name cannot, so they are written here without it.
\<close>

section \<open>JavaScript strings and primitive values\<close>

text \<open>
  A JavaScript string is a sequence of UTF-16 code units. ASCII literals of the script are
  written \<open>js ''...''\<close>; the three non-ASCII characters the script uses are named below.
\<close>

type_synonym jsstring = "16 word list"

definition js :: "string \<Rightarrow> jsstring" where
  "js s = map of_char s"

definition em_dash :: "16 word" where
  "em_dash = 0x2014"

definition en_dash :: "16 word" where
  "en_dash = 0x2013"

definition warning_sign :: "16 word" where
  "warning_sign = 0x26A0"

text \<open>
  The primitive values that reach the script's string handling: \<open>null\<close>, \<open>undefined\<close>,
  booleans, (integral) numbers and strings.
\<close>

datatype jsval = JNull | JUndefined | JBool bool | JNum int | JStr jsstring

text \<open>Decimal rendering of a number, as \<open>String(n)\<close> and \<open>'' + n\<close> give it for integers.\<close>

fun String_nat :: "nat \<Rightarrow> jsstring" where
  "String_nat n =
     (if n < 10 then [of_nat (48 + n)]
      else String_nat (n div 10) @ [of_nat (48 + n mod 10)])"

declare String_nat.simps [simp del]

definition String_int :: "int \<Rightarrow> jsstring" where
  "String_int i = (if i < 0 then js ''-'' @ String_nat (nat (- i)) else String_nat (nat i))"

text \<open>\<open>String(v)\<close>.\<close>

fun ToString :: "jsval \<Rightarrow> jsstring" where
  "ToString JNull = js ''null''"
| "ToString JUndefined = js ''undefined''"
| "ToString (JBool b) = (if b then js ''true'' else js ''false'')"
| "ToString (JNum i) = String_int i"
| "ToString (JStr s) = s"

text \<open>Truthiness, as \<open>if (v)\<close>, \<open>!v\<close>, \<open>v || w\<close> and \<open>v && w\<close> test it.\<close>

fun truthy :: "jsval \<Rightarrow> bool" where
  "truthy JNull = False"
| "truthy JUndefined = False"
| "truthy (JBool b) = b"
| "truthy (JNum i) = (i \<noteq> 0)"
| "truthy (JStr s) = (s \<noteq> [])"

definition js_or :: "jsval \<Rightarrow> jsval \<Rightarrow> jsval" where
  "js_or a b = (if truthy a then a else b)"

definition js_and :: "jsval \<Rightarrow> jsval \<Rightarrow> jsval" where
  "js_and a b = (if truthy a then b else a)"

text \<open>
  \<open>String.prototype.trim\<close> removes the WhiteSpace and LineTerminator code points of
  ECMAScript from both ends; the regular expression class \<open>\s\<close> is the same set.
\<close>

definition is_ws :: "16 word \<Rightarrow> bool" where
  "is_ws c = (c \<in> set [0x9, 0xA, 0xB, 0xC, 0xD, 0x20, 0xA0, 0x1680,
     0x2000, 0x2001, 0x2002, 0x2003, 0x2004, 0x2005, 0x2006, 0x2007, 0x2008, 0x2009, 0x200A,
     0x2028, 0x2029, 0x202F, 0x205F, 0x3000, 0xFEFF])"

definition trim :: "jsstring \<Rightarrow> jsstring" where
  "trim s = rev (dropWhile is_ws (rev (dropWhile is_ws s)))"

text \<open>\<open>s.replace(/c/g, r)\<close> for a single character \<open>c\<close>.\<close>

definition replace_all :: "16 word \<Rightarrow> jsstring \<Rightarrow> jsstring \<Rightarrow> jsstring" where
  "replace_all c r s = concat (map (\<lambda>x. if x = c then r else [x]) s)"

text \<open>\<open>arr.join(sep)\<close> on an array of strings.\<close>

fun join :: "jsstring \<Rightarrow> jsstring list \<Rightarrow> jsstring" where
  "join sep [] = []"
| "join sep [x] = x"
| "join sep (x # y # ys) = x @ sep @ join sep (y # ys)"

section \<open>Host objects\<close>

text \<open>
  A property of a host object that the script calls as a method: it is missing
  (\<open>Absent\<close>), or calling it throws (\<open>Throws\<close>; a truthy property that is not a function
  also ends here, as a TypeError or through \<open>typeof\<close>), or it returns a value.
\<close>

datatype 'a meth = Absent | Throws | Returns 'a

datatype error = TypeError | Thrown | Error jsstring

text \<open>
  \<open>function safeCall(fn, ctx) { try { if (typeof fn === 'function') return fn.call(ctx); }
  catch (e) {} return null; }\<close>
\<close>

fun safeCall :: "jsval meth \<Rightarrow> jsval" where
  "safeCall (Returns v) = v"
| "safeCall Absent = JNull"
| "safeCall Throws = JNull"

section \<open>normalizeReasons\<close>

text \<open>
  \<open>seen\<close> is an ordinary object created by \<open>{}\<close>: reading \<open>seen[v]\<close> finds the object's own
  property \<open>v\<close> or, when it has none, the property \<open>v\<close> of \<open>Object.prototype\<close>. Every
  property of \<open>Object.prototype\<close> is a function or an object, hence truthy.
\<close>

definition Object_prototype_keys :: "jsstring list" where
  "Object_prototype_keys = map js [''constructor'', ''hasOwnProperty'', ''isPrototypeOf'',
     ''propertyIsEnumerable'', ''toLocaleString'', ''toString'', ''valueOf'', ''__proto__'',
     ''__defineGetter__'', ''__defineSetter__'', ''__lookupGetter__'', ''__lookupSetter__'']"

text \<open>Truthiness of \<open>seen[v]\<close>, where the own properties of \<open>seen\<close> are the keys set to \<open>true\<close>.\<close>

definition seen_get :: "(jsstring \<rightharpoonup> bool) \<Rightarrow> jsstring \<Rightarrow> bool" where
  "seen_get seen v =
     (case seen v of Some b \<Rightarrow> b | None \<Rightarrow> v \<in> set Object_prototype_keys)"

text \<open>
  The loop of \<open>normalizeReasons\<close>, with its two locals:
  \<open>var v = String(arr[i] || '').trim();
  if (v && !seen[v]) { seen[v] = true; out.push(v); }\<close>
\<close>

fun normalizeReasons_loop ::
  "jsval list \<Rightarrow> (jsstring \<rightharpoonup> bool) \<Rightarrow> jsstring list \<Rightarrow> jsstring list" where
  "normalizeReasons_loop [] seen out = out"
| "normalizeReasons_loop (x # arr) seen out =
     (let v = trim (ToString (js_or x (JStr []))) in
      if v \<noteq> [] \<and> \<not> seen_get seen v
      then normalizeReasons_loop arr (seen(v \<mapsto> True)) (out @ [v])
      else normalizeReasons_loop arr seen out)"

definition normalizeReasons :: "jsval list \<Rightarrow> jsstring list" where
  "normalizeReasons arr = normalizeReasons_loop arr Map.empty []"

text \<open>
  What the specification says of it: trim every string, drop the empty ones, keep the first
  occurrence of each value in first-seen order.
\<close>

fun keep_first :: "'a list \<Rightarrow> 'a list \<Rightarrow> 'a list" where
  "keep_first seen [] = []"
| "keep_first seen (x # xs) =
     (if x \<in> set seen then keep_first seen xs else x # keep_first (x # seen) xs)"

definition normalize_spec :: "jsstring list \<Rightarrow> jsstring list" where
  "normalize_spec arr = keep_first [] (filter (\<lambda>v. v \<noteq> []) (map trim arr))"

section \<open>extractPolicyInfo\<close>

record evidence =
  ev_text :: jsval
  ev_getText :: "jsval meth"

text \<open>
  A policy topic object: its two accessors, its raw \<open>topic\<close> and \<open>id\<close> fields
  (\<open>JUndefined\<close> when missing), and its evidences through an accessor or a raw field.
  An element of an evidence array that is \<open>null\<close> is \<open>None\<close>; an accessor that returns
  \<open>null\<close> returns \<open>None\<close>. The elements of the topics array are objects.
\<close>

record policy_topic =
  getTopic :: "jsval meth"
  getId :: "jsval meth"
  topic_field :: jsval
  id_field :: jsval
  getEvidences :: "evidence option list option meth"
  evidences_field :: "evidence option list option"

record PolicyInfo =
  topics :: "jsstring list"
  reasons :: "jsstring list"

definition sentinel_topic :: jsstring where
  "sentinel_topic = js ''Unspecified Policy Topic''"

text \<open>The name pushed to \<open>topicsOut\<close> for one topic.\<close>

definition topic_name :: "policy_topic \<Rightarrow> jsval" where
  "topic_name t =
     (let name0 = (case getTopic t of Returns v \<Rightarrow> v | Absent \<Rightarrow> JNull | Throws \<Rightarrow> JNull);
          name1 = (if \<not> truthy name0
                   then (case getId t of Returns v \<Rightarrow> v | Absent \<Rightarrow> name0 | Throws \<Rightarrow> name0)
                   else name0);
          name2 = (if \<not> truthy name1 \<and> topic_field t \<noteq> JUndefined then topic_field t else name1);
          name3 = (if \<not> truthy name2 \<and> id_field t \<noteq> JUndefined then id_field t else name2)
      in js_or name3 (JStr sentinel_topic))"

text \<open>What one element of an evidence list adds to \<open>reasonsOut\<close>.\<close>

fun evidence_reasons :: "evidence option \<Rightarrow> jsval list" where
  "evidence_reasons None = []"
| "evidence_reasons (Some ev) =
     (if truthy (ev_text ev) then [ev_text ev]
      else (case ev_getText ev of Returns v \<Rightarrow> [v] | Absent \<Rightarrow> [] | Throws \<Rightarrow> []))"

text \<open>
  \<open>var evidences = (t.getEvidences && t.getEvidences()) || t.evidences || [];\<close> and the
  loop over it, inside \<open>try { ... } catch (e4) {}\<close>. An array, even an empty one, is truthy.
\<close>

definition topic_reasons :: "policy_topic \<Rightarrow> jsval list" where
  "topic_reasons t =
     (case getEvidences t of
        Throws \<Rightarrow> []
      | Returns (Some evs) \<Rightarrow> concat (map evidence_reasons evs)
      | Returns None \<Rightarrow> concat (map evidence_reasons (case evidences_field t of None \<Rightarrow> [] | Some evs \<Rightarrow> evs))
      | Absent \<Rightarrow> concat (map evidence_reasons (case evidences_field t of None \<Rightarrow> [] | Some evs \<Rightarrow> evs)))"

fun topics_loop ::
  "policy_topic list \<Rightarrow> jsval list \<Rightarrow> jsval list \<Rightarrow> jsval list \<times> jsval list" where
  "topics_loop [] topicsOut reasonsOut = (topicsOut, reasonsOut)"
| "topics_loop (t # ts) topicsOut reasonsOut =
     topics_loop ts (topicsOut @ [topic_name t]) (reasonsOut @ topic_reasons t)"

text \<open>
  The argument is the entity's \<open>getPolicyTopics\<close>: not a function, or throwing (caught by
  the outer \<open>try\<close>), or returning an array or \<open>null\<close>. The function never throws.
\<close>

definition extractPolicyInfo :: "policy_topic list option meth \<Rightarrow> PolicyInfo" where
  "extractPolicyInfo getPolicyTopics =
     (let (topicsOut, reasonsOut) =
        (case getPolicyTopics of
           Returns (Some ts) \<Rightarrow> topics_loop ts [] []
         | Returns None \<Rightarrow> ([], [])
         | Absent \<Rightarrow> ([], [])
         | Throws \<Rightarrow> ([], []))
      in \<lparr>topics = normalizeReasons topicsOut, reasons = normalizeReasons reasonsOut\<rparr>)"

section \<open>Configuration\<close>

text \<open>
  The global \<open>CONFIG\<close>. A label group is an object \<open>{label, to, cc}\<close>; a field that is
  not set is \<open>JUndefined\<close>. A string setting that is not set is the empty string (both are
  falsy, and the script reads the settings through \<open>||\<close> only).
\<close>

record LabelGroup =
  lg_label :: jsval
  lg_to :: jsval
  lg_cc :: jsval

record config =
  DEFAULT_TO :: jsstring
  FROM_NAME :: jsstring
  SUBJECT_PREFIX :: jsstring
  LABEL_RECIPIENTS :: "LabelGroup list"
  MAX_ROWS_PER_SECTION :: nat
  INCLUDE_ZERO_ROW_SECTIONS :: bool
  LOG_SUMMARY :: bool

text \<open>The lines written with \<open>Logger.log\<close>: one constructor per format string, with its arguments.\<close>

datatype log_line =
    SkippingLabel jsval
  | ExecutingScan jsval
  | AdScanError error
  | KeywordScanError error
  | Emailing jsval jsstring jsstring jsstring
  | PreviewSkipped

section \<open>The per-account worker getStats\<close>

text \<open>A campaign or an ad group: an object with a \<open>getName\<close> method.\<close>

record named =
  getName :: "jsval meth"

text \<open>
  The entities an iterator yields, as the methods the worker calls on them. A method that
  returns an object returns \<open>None\<close> when the object is \<open>null\<close>.
\<close>

record ad_entity =
  ad_getPolicyApprovalStatus :: "jsval meth"
  ad_getType :: "jsval meth"
  ad_getCampaign :: "named option meth"
  ad_getAdGroup :: "named option meth"
  ad_getPolicyTopics :: "policy_topic list option meth"

record keyword_entity =
  kw_getApprovalStatus :: "jsval meth"
  kw_getText :: "jsval meth"
  kw_getMatchType :: "jsval meth"
  kw_getCampaign :: "named option meth"
  kw_getAdGroup :: "named option meth"
  kw_getPolicyTopics :: "policy_topic list option meth"

record asset_entity =
  as_getPolicyApprovalStatus :: "jsval meth"
  as_getType :: "jsval meth"
  as_getName :: "jsval meth"
  as_getPolicyTopics :: "policy_topic list option meth"

text \<open>
  The current account: its name and customer id, and what
  \<open>AdsApp.ads().withLimit(n).get()\<close> (and the same for keywords and assets) does: the
  selector is missing, or the chain throws, or it returns an iterator over the entities; the
  limit is applied by \<open>take\<close> in the worker below. The iterator's own \<open>hasNext\<close> and
  \<open>next\<close> do not throw.
\<close>

record account_env =
  acc_name :: jsstring
  acc_customerId :: jsstring
  acc_ads :: "ad_entity list meth"
  acc_keywords :: "keyword_entity list meth"
  acc_assets :: "asset_entity list meth"

text \<open>
  The records the worker pushes, and the object \<open>out\<close> it returns (\<open>keywords\<close> is a
  keyword of Isabelle, so the five fields of \<open>out\<close> carry the prefix \<open>out_\<close>).
\<close>

record DisapprovedAd =
  ad_type :: jsval
  ad_campaign :: jsval
  ad_adGroup :: jsval
  ad_status :: jsval
  ad_topics :: "jsstring list"
  ad_reasons :: "jsstring list"

record DisapprovedKeyword =
  kw_text :: jsval
  kw_matchType :: jsval
  kw_campaign :: jsval
  kw_adGroup :: jsval
  kw_status :: jsval
  kw_topics :: "jsstring list"
  kw_reasons :: "jsstring list"

record DisapprovedAsset =
  as_assetType :: jsval
  as_name :: jsval
  as_status :: jsval
  as_topics :: "jsstring list"
  as_reasons :: "jsstring list"

record scan_totals =
  tot_ads :: nat
  tot_keywords :: nat
  tot_assets :: nat

record AccountScanResult =
  out_account :: jsstring
  out_ads :: "DisapprovedAd list"
  out_keywords :: "DisapprovedKeyword list"
  out_assets :: "DisapprovedAsset list"
  out_totals :: scan_totals

text \<open>\<open>x.m()\<close>: a missing method is a TypeError.\<close>

fun direct_call :: "jsval meth \<Rightarrow> error + jsval" where
  "direct_call Absent = Inl TypeError"
| "direct_call Throws = Inl Thrown"
| "direct_call (Returns v) = Inr v"

text \<open>\<open>x.m && x.m()\<close>: a missing method gives \<open>undefined\<close>.\<close>

fun guarded_call :: "jsval meth \<Rightarrow> error + jsval" where
  "guarded_call Absent = Inr JUndefined"
| "guarded_call Throws = Inl Thrown"
| "guarded_call (Returns v) = Inr v"

text \<open>\<open>x.getCampaign() && x.getCampaign().getName()\<close>\<close>

fun campaign_name :: "named option meth \<Rightarrow> error + jsval" where
  "campaign_name Absent = Inl TypeError"
| "campaign_name Throws = Inl Thrown"
| "campaign_name (Returns None) = Inr JNull"
| "campaign_name (Returns (Some c)) = direct_call (getName c)"

text \<open>\<open>x.getAdGroup && x.getAdGroup().getName ? x.getAdGroup().getName() : null\<close>\<close>

fun adGroup_name :: "named option meth \<Rightarrow> error + jsval" where
  "adGroup_name Absent = Inr JNull"
| "adGroup_name Throws = Inl Thrown"
| "adGroup_name (Returns None) = Inl TypeError"
| "adGroup_name (Returns (Some g)) =
     (case getName g of Absent \<Rightarrow> Inr JNull | Throws \<Rightarrow> Inl Thrown | Returns v \<Rightarrow> Inr v)"

text \<open>
  The object literals pushed by the three loops; their fields are evaluated in the order
  written, and the first one that throws ends the evaluation.
\<close>

definition ad_record :: "ad_entity \<Rightarrow> jsval \<Rightarrow> PolicyInfo \<Rightarrow> error + DisapprovedAd" where
  "ad_record ad polStatus pol =
     (case guarded_call (ad_getType ad) of Inl e \<Rightarrow> Inl e | Inr ty \<Rightarrow>
      (case campaign_name (ad_getCampaign ad) of Inl e \<Rightarrow> Inl e | Inr ca \<Rightarrow>
       (case adGroup_name (ad_getAdGroup ad) of Inl e \<Rightarrow> Inl e | Inr ag \<Rightarrow>
          Inr \<lparr>ad_type = ty, ad_campaign = ca, ad_adGroup = ag, ad_status = polStatus,
               ad_topics = topics pol, ad_reasons = reasons pol\<rparr>)))"

definition keyword_record ::
  "keyword_entity \<Rightarrow> jsval \<Rightarrow> PolicyInfo \<Rightarrow> error + DisapprovedKeyword" where
  "keyword_record kw kwStatus pol2 =
     (case direct_call (kw_getText kw) of Inl e \<Rightarrow> Inl e | Inr tx \<Rightarrow>
      (case guarded_call (kw_getMatchType kw) of Inl e \<Rightarrow> Inl e | Inr mt \<Rightarrow>
       (case campaign_name (kw_getCampaign kw) of Inl e \<Rightarrow> Inl e | Inr ca \<Rightarrow>
        (case adGroup_name (kw_getAdGroup kw) of Inl e \<Rightarrow> Inl e | Inr ag \<Rightarrow>
           Inr \<lparr>kw_text = tx, kw_matchType = mt, kw_campaign = ca, kw_adGroup = ag,
                kw_status = kwStatus, kw_topics = topics pol2, kw_reasons = reasons pol2\<rparr>))))"

definition asset_record :: "asset_entity \<Rightarrow> jsval \<Rightarrow> PolicyInfo \<Rightarrow> DisapprovedAsset" where
  "asset_record asset aStatus pol3 =
     \<lparr>as_assetType = safeCall (as_getType asset), as_name = safeCall (as_getName asset),
      as_status = aStatus, as_topics = topics pol3, as_reasons = reasons pol3\<rparr>"

text \<open>
  The three \<open>while\<close> loops. Each takes the entities the iterator still holds and the array
  filled so far, and returns the array as the loop leaves it, with the exception that ended
  the loop if one did: the array is mutated in place, so what was pushed before a throw stays.
\<close>

fun ads_loop :: "ad_entity list \<Rightarrow> DisapprovedAd list \<Rightarrow> DisapprovedAd list \<times> error option" where
  "ads_loop [] pushed = (pushed, None)"
| "ads_loop (ad # adIter) pushed =
     (let polStatus = safeCall (ad_getPolicyApprovalStatus ad) in
      if ToString polStatus = js ''APPROVED'' then ads_loop adIter pushed
      else (case ad_record ad polStatus (extractPolicyInfo (ad_getPolicyTopics ad)) of
              Inl e \<Rightarrow> (pushed, Some e)
            | Inr r \<Rightarrow> ads_loop adIter (pushed @ [r])))"

fun keywords_loop ::
  "keyword_entity list \<Rightarrow> DisapprovedKeyword list \<Rightarrow> DisapprovedKeyword list \<times> error option" where
  "keywords_loop [] pushed = (pushed, None)"
| "keywords_loop (kw # kwIter) pushed =
     (let kwStatus = safeCall (kw_getApprovalStatus kw) in
      if ToString kwStatus = js ''APPROVED'' then keywords_loop kwIter pushed
      else (case keyword_record kw kwStatus (extractPolicyInfo (kw_getPolicyTopics kw)) of
              Inl e \<Rightarrow> (pushed, Some e)
            | Inr r \<Rightarrow> keywords_loop kwIter (pushed @ [r])))"

fun assets_loop :: "asset_entity list \<Rightarrow> DisapprovedAsset list \<Rightarrow> DisapprovedAsset list" where
  "assets_loop [] pushed = pushed"
| "assets_loop (asset # assetIterator) pushed =
     (let aStatus = safeCall (as_getPolicyApprovalStatus asset) in
      if \<not> truthy aStatus \<or> ToString aStatus = js ''APPROVED''
      then assets_loop assetIterator pushed
      else assets_loop assetIterator
             (pushed @ [asset_record asset aStatus (extractPolicyInfo (as_getPolicyTopics asset))]))"

text \<open>
  The three \<open>try\<close> blocks. The assignment \<open>out.totals.ads = out.ads.length\<close> stands after
  the loop inside the \<open>try\<close>: it runs when the loop ends without an exception.
\<close>

definition scan_ads ::
  "config \<Rightarrow> account_env \<Rightarrow> AccountScanResult \<Rightarrow> AccountScanResult \<times> log_line list" where
  "scan_ads cfg acct out =
     (case acc_ads acct of
        Absent \<Rightarrow> (out, [AdScanError TypeError])
      | Throws \<Rightarrow> (out, [AdScanError Thrown])
      | Returns xs \<Rightarrow>
          (case ads_loop (take (MAX_ROWS_PER_SECTION cfg) xs) (out_ads out) of
             (rows, Some e1) \<Rightarrow> (out\<lparr>out_ads := rows\<rparr>, [AdScanError e1])
           | (rows, None) \<Rightarrow>
               (out\<lparr>out_ads := rows, out_totals := (out_totals out)\<lparr>tot_ads := length rows\<rparr>\<rparr>, [])))"

definition scan_keywords ::
  "config \<Rightarrow> account_env \<Rightarrow> AccountScanResult \<Rightarrow> AccountScanResult \<times> log_line list" where
  "scan_keywords cfg acct out =
     (case acc_keywords acct of
        Absent \<Rightarrow> (out, [KeywordScanError TypeError])
      | Throws \<Rightarrow> (out, [KeywordScanError Thrown])
      | Returns xs \<Rightarrow>
          (case keywords_loop (take (MAX_ROWS_PER_SECTION cfg) xs) (out_keywords out) of
             (rows, Some e2) \<Rightarrow> (out\<lparr>out_keywords := rows\<rparr>, [KeywordScanError e2])
           | (rows, None) \<Rightarrow>
               (out\<lparr>out_keywords := rows, out_totals := (out_totals out)\<lparr>tot_keywords := length rows\<rparr>\<rparr>, [])))"

definition scan_assets :: "config \<Rightarrow> account_env \<Rightarrow> AccountScanResult \<Rightarrow> AccountScanResult" where
  "scan_assets cfg acct out =
     (case acc_assets acct of
        Absent \<Rightarrow> out
      | Throws \<Rightarrow> out
      | Returns xs \<Rightarrow>
          (let rows = assets_loop (take (MAX_ROWS_PER_SECTION cfg) xs) (out_assets out)
           in out\<lparr>out_assets := rows, out_totals := (out_totals out)\<lparr>tot_assets := length rows\<rparr>\<rparr>))"

text \<open>
  \<open>getStats\<close>: the object \<open>out\<close> that the worker serialises with \<open>JSON.stringify\<close> and
  returns, and the lines it logs.
\<close>

definition getStats :: "config \<Rightarrow> account_env \<Rightarrow> AccountScanResult \<times> log_line list" where
  "getStats cfg acct =
     (let out0 = \<lparr>out_account = acc_name acct @ js '' ('' @ acc_customerId acct @ js '')'',
                  out_ads = [], out_keywords = [], out_assets = [],
                  out_totals = \<lparr>tot_ads = 0, tot_keywords = 0, tot_assets = 0\<rparr>\<rparr>;
          (out1, log1) = scan_ads cfg acct out0;
          (out2, log2) = scan_keywords cfg acct out1;
          out3 = scan_assets cfg acct out2
      in (out3, log1 @ log2))"

section \<open>HTML helpers\<close>

definition escHtml :: "jsval \<Rightarrow> jsstring" where
  "escHtml v =
     (if v = JNull \<or> v = JUndefined then []
      else replace_all 0x3E (js ''&gt;'')
             (replace_all 0x3C (js ''&lt;'')
                (replace_all 0x26 (js ''&amp;'') (ToString v))))"

definition td :: "jsval \<Rightarrow> jsstring" where
  \<open>td v = js ''<td style="vertical-align:top;border-top:1px solid #eee;">'' @ escHtml v @ js ''</td>''\<close>

definition sectionHeader :: "jsstring \<Rightarrow> nat \<Rightarrow> jsstring" where
  \<open>sectionHeader title count =
     js ''<h4 style="margin:12px 0 6px 0;">'' @ escHtml (JStr title) @
     js '' <span style="font-weight:normal;color:#555">('' @ String_nat count @ js '')</span></h4>''\<close>

definition emptyNote :: jsstring where
  \<open>emptyNote =
     js ''<div style="padding:8px 10px;border:1px dashed #ddd;background:#fafafa;color:#777;">None</div>''\<close>

text \<open>
  \<open>html.replace(/<[^>]+>/g, ' ')\<close>: at a \<open><\<close> that is followed by at least one character
  other than \<open>>\<close> and then by a \<open>>\<close>, everything up to that \<open>>\<close> becomes one space.
\<close>

function strip_tags :: "jsstring \<Rightarrow> jsstring" where
  "strip_tags [] = []"
| "strip_tags (c # s) =
     (if c = 0x3C \<and> takeWhile (\<lambda>x. x \<noteq> 0x3E) s \<noteq> [] \<and> dropWhile (\<lambda>x. x \<noteq> 0x3E) s \<noteq> []
      then 0x20 # strip_tags (tl (dropWhile (\<lambda>x. x \<noteq> 0x3E) s))
      else c # strip_tags s)"
  by pat_completeness auto
termination
  by (relation "measure length")
     (auto simp: less_Suc_eq_le intro: order_trans [OF diff_le_self length_dropWhile_le])

text \<open>\<open>.replace(/\s+/g, ' ')\<close>; the flag says that the previous character was whitespace.\<close>

fun collapse_ws :: "bool \<Rightarrow> jsstring \<Rightarrow> jsstring" where
  "collapse_ws in_run [] = []"
| "collapse_ws in_run (c # s) =
     (if is_ws c then (if in_run then collapse_ws True s else 0x20 # collapse_ws True s)
      else c # collapse_ws False s)"

definition stripHtml :: "jsstring \<Rightarrow> jsstring" where
  "stripHtml html = trim (collapse_ws False (strip_tags html))"

section \<open>The aggregator generateOutput\<close>

text \<open>
  What \<open>JSON.parse\<close> does on a string: it throws, or it returns a falsy value (\<open>null\<close>,
  \<open>false\<close>, \<open>0\<close>, the empty string), or it returns a truthy value, read at the type the
  caller uses it at. The parser itself is the host's and is a parameter of the model.
\<close>

datatype 'a parsed = SyntaxError | Falsy | Truthy 'a

text \<open>
  \<open>function parseSafe(s) { try { return JSON.parse(s); } catch (e) { return null; } }\<close>;
  \<open>None\<close> is any falsy result, which is all that the caller tells apart.
\<close>

definition parseSafe :: "(jsstring \<Rightarrow> 'a parsed) \<Rightarrow> jsval \<Rightarrow> 'a option" where
  "parseSafe JSON_parse s =
     (case JSON_parse (ToString s) of SyntaxError \<Rightarrow> None | Falsy \<Rightarrow> None | Truthy v \<Rightarrow> Some v)"

text \<open>
  The parsed return value of a worker, as the aggregator reads it: a property that is
  missing (or \<open>null\<close>) is \<open>None\<close> resp. \<open>JUndefined\<close>. The counts are numbers.
\<close>

record ad_item =
  ai_type :: jsval
  ai_campaign :: jsval
  ai_adGroup :: jsval
  ai_status :: jsval
  ai_topics :: "jsstring list option"
  ai_reasons :: "jsstring list option"

record keyword_item =
  ki_text :: jsval
  ki_matchType :: jsval
  ki_campaign :: jsval
  ki_adGroup :: jsval
  ki_status :: jsval
  ki_topics :: "jsstring list option"
  ki_reasons :: "jsstring list option"

record asset_item =
  si_assetType :: jsval
  si_name :: jsval
  si_status :: jsval
  si_topics :: "jsstring list option"
  si_reasons :: "jsstring list option"

record payload_totals =
  pt_ads :: "nat option"
  pt_keywords :: "nat option"
  pt_assets :: "nat option"

record payload =
  p_account :: jsval
  p_ads :: "ad_item list option"
  p_keywords :: "keyword_item list option"
  p_assets :: "asset_item list option"
  p_totals :: "payload_totals option"

text \<open>
  A result handed to the callback by the platform: \<open>getReturnValue\<close> is \<open>None\<close> when the
  result has no such method, and otherwise the value the method returns (the string the
  worker returned, or \<open>null\<close>); the method is the platform's and does not throw.
\<close>

record worker_result =
  getReturnValue :: "jsval option"

record report_row =
  row_account :: jsval
  row_ads :: "ad_item list"
  row_keywords :: "keyword_item list"
  row_assets :: "asset_item list"

record merged_totals =
  sum_ads :: nat
  sum_keywords :: nat
  sum_assets :: nat
  accounts :: nat

record MergedReport =
  label :: jsval
  rows :: "report_row list"
  totals :: merged_totals

text \<open>\<open>(payload.totals && payload.totals.ads) || 0\<close>, for each of the three counts.\<close>

definition payload_count :: "(payload_totals \<Rightarrow> nat option) \<Rightarrow> payload \<Rightarrow> nat" where
  "payload_count field payload =
     (case p_totals payload of
        None \<Rightarrow> 0
      | Some t \<Rightarrow> (case field t of None \<Rightarrow> 0 | Some n \<Rightarrow> n))"

text \<open>\<open>payload.ads || []\<close>\<close>

definition or_empty :: "'a list option \<Rightarrow> 'a list" where
  "or_empty xs = (case xs of None \<Rightarrow> [] | Some l \<Rightarrow> l)"

text \<open>The loop over \<open>results\<close> that fills \<open>merged\<close>.\<close>

fun merge_loop ::
  "(jsstring \<Rightarrow> payload parsed) \<Rightarrow> worker_result list \<Rightarrow> MergedReport \<Rightarrow> MergedReport" where
  "merge_loop JSON_parse [] merged = merged"
| "merge_loop JSON_parse (res # results) merged =
     (case getReturnValue res of
        None \<Rightarrow> merge_loop JSON_parse results merged
      | Some v \<Rightarrow>
          (case parseSafe JSON_parse v of
             None \<Rightarrow> merge_loop JSON_parse results merged
           | Some payload \<Rightarrow>
               merge_loop JSON_parse results
                 (merged\<lparr>
                    totals := \<lparr>sum_ads = sum_ads (totals merged) + payload_count pt_ads payload,
                               sum_keywords = sum_keywords (totals merged) + payload_count pt_keywords payload,
                               sum_assets = sum_assets (totals merged) + payload_count pt_assets payload,
                               accounts = accounts (totals merged) + 1\<rparr>,
                    rows := rows merged @
                      [\<lparr>row_account = p_account payload,
                        row_ads = or_empty (p_ads payload),
                        row_keywords = or_empty (p_keywords payload),
                        row_assets = or_empty (p_assets payload)\<rparr>]\<rparr>)))"

text \<open>\<open>ad.topics && ad.topics.join(', ')\<close>\<close>

definition joined :: "jsstring \<Rightarrow> jsstring list option \<Rightarrow> jsval" where
  "joined sep xs = (case xs of None \<Rightarrow> JUndefined | Some l \<Rightarrow> JStr (join sep l))"

definition tr_open :: jsstring where
  \<open>tr_open = js ''<tr style="border-top:1px solid #eee;">''\<close>

definition table_open :: jsstring where
  \<open>table_open =
     js ''<table width="100%" cellpadding="6" cellspacing="0" style="border-collapse:collapse;border:1px solid #ddd;">''\<close>

definition ad_tr :: "ad_item \<Rightarrow> jsstring" where
  "ad_tr ad =
     tr_open @
     td (ai_type ad) @ td (ai_campaign ad) @ td (ai_adGroup ad) @ td (ai_status ad) @
     td (joined (js '', '') (ai_topics ad)) @ td (joined (js ''; '') (ai_reasons ad)) @
     js ''</tr>''"

definition keyword_tr :: "keyword_item \<Rightarrow> jsstring" where
  "keyword_tr kw =
     tr_open @
     td (ki_text kw) @ td (ki_matchType kw) @ td (ki_campaign kw) @ td (ki_adGroup kw) @
     td (ki_status kw) @
     td (joined (js '', '') (ki_topics kw)) @ td (joined (js ''; '') (ki_reasons kw)) @
     js ''</tr>''"

definition asset_tr :: "asset_item \<Rightarrow> jsstring" where
  "asset_tr as =
     tr_open @
     td (si_assetType as) @ td (si_name as) @ td (si_status as) @
     td (joined (js '', '') (si_topics as)) @ td (joined (js ''; '') (si_reasons as)) @
     js ''</tr>''"

definition ads_thead :: jsstring where
  \<open>ads_thead = js (''<thead><tr style="background:#f7f7f7"><th align="left">Type</th>'' @
     ''<th align="left">Campaign</th><th align="left">Ad group</th><th align="left">Status</th>'' @
     ''<th align="left">Policy topics</th><th align="left">Reasons</th></tr></thead>'')\<close>

definition keywords_thead :: jsstring where
  \<open>keywords_thead = js (''<thead><tr style="background:#f7f7f7"><th align="left">Text</th>'' @
     ''<th align="left">Match</th><th align="left">Campaign</th><th align="left">Ad group</th>'' @
     ''<th align="left">Status</th><th align="left">Policy topics</th>'' @
     ''<th align="left">Reasons</th></tr></thead>'')\<close>

definition assets_thead :: jsstring where
  \<open>assets_thead = js (''<thead><tr style="background:#f7f7f7"><th align="left">Type</th>'' @
     ''<th align="left">Name</th><th align="left">Status</th>'' @
     ''<th align="left">Policy topics</th><th align="left">Reasons</th></tr></thead>'')\<close>

text \<open>
  One category of one account: the strings pushed to \<open>html\<close> by
  \<open>if (row.ads.length || CONFIG.INCLUDE_ZERO_ROW_SECTIONS) { ... }\<close>.
\<close>

definition category_html ::
  "config \<Rightarrow> jsstring \<Rightarrow> jsstring \<Rightarrow> ('a \<Rightarrow> jsstring) \<Rightarrow> 'a list \<Rightarrow> jsstring list" where
  "category_html cfg title thead tr items =
     (if items \<noteq> [] \<or> INCLUDE_ZERO_ROW_SECTIONS cfg
      then sectionHeader title (length items) #
           (if items \<noteq> []
            then [table_open, thead, js ''<tbody>''] @ map tr items @ [js ''</tbody></table>'']
            else [emptyNote])
      else [])"

definition row_html :: "config \<Rightarrow> report_row \<Rightarrow> jsstring list" where
  \<open>row_html cfg row =
     [js ''<h3 style="margin:16px 0 6px 0;">'' @ escHtml (row_account row) @ js ''</h3>''] @
     category_html cfg (js ''Ads'') ads_thead ad_tr (row_ads row) @
     category_html cfg (js ''Keywords'') keywords_thead keyword_tr (row_keywords row) @
     category_html cfg (js ''Assets / Extensions (best-effort)'') assets_thead asset_tr (row_assets row)\<close>

text \<open>
  The last paragraph: \<open>'Sent ' + new Date().toLocaleString() + (PREVIEW ? ... : '')\<close>.
  The local time string is read from the host's clock when the aggregator runs.
\<close>

definition sent_line :: "bool \<Rightarrow> jsstring \<Rightarrow> jsstring" where
  \<open>sent_line preview now =
     js ''<p style="margin-top:18px;color:#666;font-size:12px;">Sent '' @ now @
     (if preview then js '' (PREVIEW MODE '' @ [en_dash] @ js '' no changes applied)'' else []) @
     js ''</p>''\<close>

text \<open>The array \<open>html\<close> when the function has pushed its last element.\<close>

definition html_array :: "config \<Rightarrow> bool \<Rightarrow> jsstring \<Rightarrow> jsval \<Rightarrow> MergedReport \<Rightarrow> jsstring list" where
  \<open>html_array cfg preview now labelName merged =
     [js ''<div style="font-family:Arial,Helvetica,sans-serif;font-size:13px;color:#222;">'',
      js ''<h2 style="margin:0 0 8px 0;">'' @ escHtml (JStr (SUBJECT_PREFIX cfg)) @
        [0x20, em_dash, 0x20] @ escHtml labelName @ js ''</h2>'',
      js ''<p style="margin:4px 0 12px 0;">'' @
        js ''Accounts scanned: <b>'' @ String_nat (accounts (totals merged)) @ js ''</b> | '' @
        js ''Ads: <b>'' @ String_nat (sum_ads (totals merged)) @ js ''</b> | '' @
        js ''Keywords: <b>'' @ String_nat (sum_keywords (totals merged)) @ js ''</b> | '' @
        js ''Assets: <b>'' @ String_nat (sum_assets (totals merged)) @ js ''</b>'' @
        js ''</p>''] @
     (if rows merged = []
      then [js ''<p>No accounts matched the label "<b>'' @ escHtml labelName @ js ''</b>".</p>'']
      else concat (map (row_html cfg) (rows merged))) @
     [sent_line preview now, js ''</div>'']\<close>

definition buildSubject :: "config \<Rightarrow> jsval \<Rightarrow> nat \<Rightarrow> merged_totals \<Rightarrow> jsstring" where
  "buildSubject cfg labelName totalIssues tots =
     (let statusFlag = (if totalIssues > 0 then js ''FOUND'' else js ''NONE'') in
      (if SUBJECT_PREFIX cfg \<noteq> [] then SUBJECT_PREFIX cfg else js ''Disapprovals'') @
      [0x20, em_dash, 0x20] @ ToString labelName @ [0x20, em_dash, 0x20] @ statusFlag @
      js '' (Ads:'' @ String_nat (sum_ads tots) @ js '', KW:'' @ String_nat (sum_keywords tots) @
      js '', Assets:'' @ String_nat (sum_assets tots) @ js '')'')"

text \<open>The routing context \<open>{label, to, cc}\<close> that travels as a JSON string.\<close>

record Context =
  ctx_label :: jsval
  ctx_to :: jsval
  ctx_cc :: jsval

text \<open>
  What the aggregator reads from the host: the global \<open>PREVIEW\<close>, the clock
  (\<open>new Date().toLocaleString()\<close> at the time of the call) and \<open>JSON.parse\<close> at the two
  types it is used at.
\<close>

record host =
  PREVIEW :: bool
  Date_toLocaleString :: jsstring
  JSON_parse_context :: "jsstring \<Rightarrow> Context parsed"
  JSON_parse_payload :: "jsstring \<Rightarrow> payload parsed"

text \<open>
  \<open>var ctx = {}; try { ctx = JSON.parse(contextStr || '{}'); } catch (e) {}\<close>:
  \<open>None\<close> is a falsy \<open>ctx\<close>.
\<close>

definition parse_context :: "host \<Rightarrow> jsval \<Rightarrow> Context option" where
  "parse_context h contextStr =
     (case JSON_parse_context h (ToString (js_or contextStr (JStr (js ''{}'')))) of
        SyntaxError \<Rightarrow> Some \<lparr>ctx_label = JUndefined, ctx_to = JUndefined, ctx_cc = JUndefined\<rparr>
      | Falsy \<Rightarrow> None
      | Truthy c \<Rightarrow> Some c)"

text \<open>\<open>(ctx && ctx.f) ? String(ctx.f).trim() : dflt\<close>\<close>

definition ctx_string :: "Context option \<Rightarrow> (Context \<Rightarrow> jsval) \<Rightarrow> jsstring \<Rightarrow> jsstring" where
  "ctx_string ctx f dflt =
     (case ctx of
        None \<Rightarrow> dflt
      | Some c \<Rightarrow> (if truthy (f c) then trim (ToString (f c)) else dflt))"

text \<open>
  The arguments of \<open>MailApp.sendEmail(recipient, subject, body, mailOptions)\<close>; the call
  itself is the platform's and is taken to return.
\<close>

record mail =
  mail_recipient :: jsstring
  mail_subject :: jsstring
  mail_body :: jsstring
  mail_name :: "jsstring option"
  mail_htmlBody :: jsstring
  mail_cc :: "jsstring option"

text \<open>
  What a run of \<open>generateOutput\<close> that does not throw leaves behind: its locals \<open>merged\<close>,
  \<open>html.join('')\<close> and \<open>subject\<close>, the lines it logged and the mail it sent, if any.
\<close>

record aggregate =
  merged :: MergedReport
  htmlBody :: jsstring
  subject :: jsstring
  logged :: "log_line list"
  sent :: "mail option"

definition generateOutput :: "config \<Rightarrow> host \<Rightarrow> worker_result list \<Rightarrow> jsval \<Rightarrow> error + aggregate" where
  "generateOutput cfg h results contextStr =
     (let ctx = parse_context h contextStr;
          recipient = ctx_string ctx ctx_to (DEFAULT_TO cfg)
      in if recipient = [] then Inl (Error (js ''Failed to send email: no recipient''))
         else
          (let cc = ctx_string ctx ctx_cc [];
               labelName = (case ctx of
                              None \<Rightarrow> JStr (js ''(Unlabeled Group)'')
                            | Some c \<Rightarrow> (if truthy (ctx_label c) then ctx_label c
                                         else JStr (js ''(Unlabeled Group)'')));
               merged0 = \<lparr>label = labelName, rows = [],
                          totals = \<lparr>sum_ads = 0, sum_keywords = 0, sum_assets = 0, accounts = 0\<rparr>\<rparr>;
               merged1 = merge_loop (JSON_parse_payload h) results merged0;
               totalIssues = sum_ads (totals merged1) + sum_keywords (totals merged1) +
                             sum_assets (totals merged1);
               html = html_array cfg (PREVIEW h) (Date_toLocaleString h) labelName merged1;
               subj = buildSubject cfg labelName totalIssues (totals merged1);
               mailOptions_name = (if FROM_NAME cfg \<noteq> [] then Some (FROM_NAME cfg) else None);
               mailOptions_cc = (if cc \<noteq> [] then Some cc else None);
               log1 = (if LOG_SUMMARY cfg
                       then [Emailing labelName subj recipient
                               (if cc \<noteq> [] then js '' (cc '' @ cc @ js '')'' else [])]
                       else [])
           in Inr \<lparr>merged = merged1, htmlBody = concat html, subject = subj,
                   logged = log1 @ (if PREVIEW h then [PreviewSkipped] else []),
                   sent = (if \<not> PREVIEW h
                           then Some \<lparr>mail_recipient = recipient, mail_subject = subj,
                                       mail_body = stripHtml (concat html),
                                       mail_name = mailOptions_name,
                                       mail_htmlBody = concat html, mail_cc = mailOptions_cc\<rparr>
                           else None)\<rparr>))"

section \<open>The group pipeline and the entry point\<close>

text \<open>
  The effects of a run outside the fan-out: the log and the mails sent. The platform's
  \<open>executeInParallel\<close> is a parameter: it receives the selector's condition, the names of
  the worker and of the callback and the context string, runs them on the accounts the
  condition selects, and returns the world as they leave it, or throws.
\<close>

record world =
  logs :: "log_line list"
  outbox :: "mail list"

record fanout =
  fo_condition :: jsstring
  fo_worker :: jsstring
  fo_callback :: jsstring
  fo_context :: jsstring

record platform =
  JSON_stringify_context :: "Context \<Rightarrow> jsstring"
  executeInParallel :: "fanout \<Rightarrow> world \<Rightarrow> error + world"

text \<open>\<open>(group && group.to) ? String(group.to).trim() : (CONFIG.DEFAULT_TO || '')\<close>\<close>

definition group_recipient :: "config \<Rightarrow> LabelGroup \<Rightarrow> jsstring" where
  "group_recipient cfg grp =
     (if truthy (lg_to grp) then trim (ToString (lg_to grp)) else DEFAULT_TO cfg)"

text \<open>
  \<open>label.replace(/'/g, "\\'")\<close> is a TypeError when the truthy \<open>label\<close> is not a string;
  the character \<open>0x27\<close> is the single quote and \<open>0x5C\<close> the backslash.
\<close>

definition processGroup :: "config \<Rightarrow> platform \<Rightarrow> LabelGroup \<Rightarrow> world \<Rightarrow> error + world" where
  "processGroup cfg pf grp w =
     (let recipient = group_recipient cfg grp in
      if recipient = [] then Inr (w\<lparr>logs := logs w @ [SkippingLabel (lg_label grp)]\<rparr>)
      else
       (let label = js_or (lg_label grp) (JStr (js ''(Unnamed Label)''));
            w1 = (if LOG_SUMMARY cfg then w\<lparr>logs := logs w @ [ExecutingScan label]\<rparr> else w)
        in case label of
             JStr l \<Rightarrow>
               (let labelEscaped = replace_all 0x27 [0x5C, 0x27] l;
                    ctx = JSON_stringify_context pf
                            \<lparr>ctx_label = label, ctx_to = JStr recipient,
                             ctx_cc = JStr (if truthy (lg_cc grp)
                                            then trim (ToString (lg_cc grp)) else [])\<rparr>
                in executeInParallel pf
                     \<lparr>fo_condition = js ''LabelNames CONTAINS_ANY ['' @ [0x27] @ labelEscaped @
                                       [0x27] @ js '']'',
                      fo_worker = js ''getStats'', fo_callback = js ''generateOutput'',
                      fo_context = ctx\<rparr> w1)
           | JNull \<Rightarrow> Inl TypeError
           | JUndefined \<Rightarrow> Inl TypeError
           | JBool b \<Rightarrow> Inl TypeError
           | JNum n \<Rightarrow> Inl TypeError))"

text \<open>The \<open>for\<close> loop of \<open>main\<close>: an exception of \<open>processGroup\<close> ends the run.\<close>

fun main_loop :: "config \<Rightarrow> platform \<Rightarrow> LabelGroup list \<Rightarrow> world \<Rightarrow> error + world" where
  "main_loop cfg pf [] w = Inr w"
| "main_loop cfg pf (grp # grps) w =
     (case processGroup cfg pf grp w of
        Inl e \<Rightarrow> Inl e
      | Inr w' \<Rightarrow> main_loop cfg pf grps w')"

definition main :: "config \<Rightarrow> platform \<Rightarrow> world \<Rightarrow> error + world" where
  "main cfg pf w =
     (if LABEL_RECIPIENTS cfg = []
      then Inl (Error (js ''CONFIG.LABEL_RECIPIENTS is empty '' @ [em_dash] @
                       js '' add at least one {label, to}.''))
      else main_loop cfg pf (LABEL_RECIPIENTS cfg) w)"

section \<open>Vocabulary of the properties\<close>

text \<open>
  The entities a category's loop is run on: what the iterator yields under the row limit,
  and nothing when the selector is missing or throws.
\<close>

definition scanned_ads :: "config \<Rightarrow> account_env \<Rightarrow> ad_entity list" where
  "scanned_ads cfg acct =
     (case acc_ads acct of Returns xs \<Rightarrow> take (MAX_ROWS_PER_SECTION cfg) xs | Absent \<Rightarrow> [] | Throws \<Rightarrow> [])"

definition scanned_keywords :: "config \<Rightarrow> account_env \<Rightarrow> keyword_entity list" where
  "scanned_keywords cfg acct =
     (case acc_keywords acct of Returns xs \<Rightarrow> take (MAX_ROWS_PER_SECTION cfg) xs | Absent \<Rightarrow> [] | Throws \<Rightarrow> [])"

definition scanned_assets :: "config \<Rightarrow> account_env \<Rightarrow> asset_entity list" where
  "scanned_assets cfg acct =
     (case acc_assets acct of Returns xs \<Rightarrow> take (MAX_ROWS_PER_SECTION cfg) xs | Absent \<Rightarrow> [] | Throws \<Rightarrow> [])"

text \<open>The status the worker reads from an entity (\<open>null\<close> when the read fails).\<close>

definition ad_status_read :: "ad_entity \<Rightarrow> jsval" where
  "ad_status_read ad = safeCall (ad_getPolicyApprovalStatus ad)"

definition keyword_status_read :: "keyword_entity \<Rightarrow> jsval" where
  "keyword_status_read kw = safeCall (kw_getApprovalStatus kw)"

definition asset_status_read :: "asset_entity \<Rightarrow> jsval" where
  "asset_status_read asset = safeCall (as_getPolicyApprovalStatus asset)"

text \<open>The record the worker builds for an entity, or the exception that building it throws.\<close>

definition ad_row :: "ad_entity \<Rightarrow> error + DisapprovedAd" where
  "ad_row ad = ad_record ad (ad_status_read ad) (extractPolicyInfo (ad_getPolicyTopics ad))"

definition keyword_row :: "keyword_entity \<Rightarrow> error + DisapprovedKeyword" where
  "keyword_row kw =
     keyword_record kw (keyword_status_read kw) (extractPolicyInfo (kw_getPolicyTopics kw))"

definition asset_row :: "asset_entity \<Rightarrow> DisapprovedAsset" where
  "asset_row asset =
     asset_record asset (asset_status_read asset) (extractPolicyInfo (as_getPolicyTopics asset))"

text \<open>A category's loop runs to its end: the selector returned and no record threw.\<close>

definition ads_scan_completes :: "config \<Rightarrow> account_env \<Rightarrow> bool" where
  "ads_scan_completes cfg acct =
     (case acc_ads acct of
        Returns xs \<Rightarrow> snd (ads_loop (take (MAX_ROWS_PER_SECTION cfg) xs) []) = None
      | Absent \<Rightarrow> False
      | Throws \<Rightarrow> False)"

definition keywords_scan_completes :: "config \<Rightarrow> account_env \<Rightarrow> bool" where
  "keywords_scan_completes cfg acct =
     (case acc_keywords acct of
        Returns xs \<Rightarrow> snd (keywords_loop (take (MAX_ROWS_PER_SECTION cfg) xs) []) = None
      | Absent \<Rightarrow> False
      | Throws \<Rightarrow> False)"

text \<open>
  The payloads of the worker results that returned a value which parses to a truthy value,
  in the order of the results.
\<close>

definition parsed_payloads :: "(jsstring \<Rightarrow> payload parsed) \<Rightarrow> worker_result list \<Rightarrow> payload list" where
  "parsed_payloads JSON_parse results =
     List.map_filter
       (\<lambda>res. case getReturnValue res of None \<Rightarrow> None | Some v \<Rightarrow> parseSafe JSON_parse v)
       results"

text \<open>The characters \<open><\<close> and \<open>>\<close> of a string, in order: its markup skeleton.\<close>

definition angle_brackets :: "jsstring \<Rightarrow> jsstring" where
  "angle_brackets s = filter (\<lambda>c. c = 0x3C \<or> c = 0x3E) s"

text \<open>The row that one parsed payload contributes to the merged report.\<close>

definition payload_row :: "payload \<Rightarrow> report_row" where
  "payload_row payload =
     \<lparr>row_account = p_account payload, row_ads = or_empty (p_ads payload),
      row_keywords = or_empty (p_keywords payload), row_assets = or_empty (p_assets payload)\<rparr>"

text \<open>The HTML body of a run of the aggregator, if the run produced one.\<close>

definition html_of :: "error + aggregate \<Rightarrow> jsstring option" where
  "html_of r = (case r of Inl e \<Rightarrow> None | Inr out \<Rightarrow> Some (htmlBody out))"

text \<open>
  The shape of an account's row of the merged report: how many ads, keywords and assets it
  lists.
\<close>

definition row_shape :: "report_row \<Rightarrow> nat \<times> nat \<times> nat" where
  "row_shape row = (length (row_ads row), length (row_keywords row), length (row_assets row))"

section \<open>Example inputs\<close>

text \<open>The script's own \<open>CONFIG\<close>, and entities of an account used in the examples below.\<close>

definition CONFIG :: config where
  "CONFIG = \<lparr>DEFAULT_TO = js ''reports@example.com'',
             FROM_NAME = js ''Disapproval Monitor'',
             SUBJECT_PREFIX = warning_sign # js '' Disapprovals'',
             LABEL_RECIPIENTS = [\<lparr>lg_label = JStr (js ''Managed by Sam''),
                                  lg_to = JStr (js ''sam@example.com''), lg_cc = JStr []\<rparr>],
             MAX_ROWS_PER_SECTION = 5000,
             INCLUDE_ZERO_ROW_SECTIONS = True,
             LOG_SUMMARY = True\<rparr>"

definition disapproved_ad :: ad_entity where
  "disapproved_ad =
     \<lparr>ad_getPolicyApprovalStatus = Returns (JStr (js ''DISAPPROVED'')),
      ad_getType = Returns (JStr (js ''EXPANDED_TEXT_AD'')),
      ad_getCampaign = Returns (Some \<lparr>getName = Returns (JStr (js ''Campaign 1''))\<rparr>),
      ad_getAdGroup = Returns (Some \<lparr>getName = Returns (JStr (js ''Ad group 1''))\<rparr>),
      ad_getPolicyTopics = Absent\<rparr>"

definition broken_ad :: ad_entity where
  "broken_ad = disapproved_ad\<lparr>ad_getCampaign := Throws\<rparr>"

definition approved_ad :: ad_entity where
  "approved_ad = disapproved_ad\<lparr>ad_getPolicyApprovalStatus := Returns (JStr (js ''APPROVED''))\<rparr>"

definition lowercase_ad :: ad_entity where
  "lowercase_ad = disapproved_ad\<lparr>ad_getPolicyApprovalStatus := Returns (JStr (js ''approved''))\<rparr>"

definition unread_ad :: ad_entity where
  "unread_ad = disapproved_ad\<lparr>ad_getPolicyApprovalStatus := Throws\<rparr>"

definition disapproved_keyword :: keyword_entity where
  "disapproved_keyword =
     \<lparr>kw_getApprovalStatus = Returns (JStr (js ''DISAPPROVED'')),
      kw_getText = Returns (JStr (js ''cheap pills'')),
      kw_getMatchType = Returns (JStr (js ''BROAD'')),
      kw_getCampaign = Returns (Some \<lparr>getName = Returns (JStr (js ''Campaign 1''))\<rparr>),
      kw_getAdGroup = Returns (Some \<lparr>getName = Returns (JStr (js ''Ad group 1''))\<rparr>),
      kw_getPolicyTopics = Absent\<rparr>"

definition disapproved_asset :: asset_entity where
  "disapproved_asset =
     \<lparr>as_getPolicyApprovalStatus = Returns (JStr (js ''DISAPPROVED'')),
      as_getType = Returns (JStr (js ''SITELINK'')),
      as_getName = Returns (JStr (js ''Sitelink 1'')),
      as_getPolicyTopics = Absent\<rparr>"

definition statusless_asset :: asset_entity where
  "statusless_asset = disapproved_asset\<lparr>as_getPolicyApprovalStatus := Absent\<rparr>"

definition account_of ::
  "ad_entity list \<Rightarrow> keyword_entity list \<Rightarrow> asset_entity list \<Rightarrow> account_env" where
  "account_of as ks ss =
     \<lparr>acc_name = js ''Client'', acc_customerId = js ''123-456-7890'',
      acc_ads = Returns as, acc_keywords = Returns ks, acc_assets = Returns ss\<rparr>"

text \<open>
  Inputs of the aggregator: a context and a worker's return value as JSON texts, a host
  whose \<open>JSON.parse\<close> reads these two texts (and \<open>null\<close>) and throws on any other, and four
  worker results: one that returned the payload, one that returned \<open>null\<close>, one without a
  \<open>getReturnValue\<close> method, and one whose return value is not JSON.
\<close>

definition example_context_text :: jsstring where
  \<open>example_context_text = js ''{"label":"Managed by Sam","to":"sam@example.com","cc":""}''\<close>

definition example_payload_text :: jsstring where
  \<open>example_payload_text = js (''{"account":"Client (123-456-7890)","ads":['' @
     ''{"type":"EXPANDED_TEXT_AD","campaign":"Campaign 1","adGroup":"Ad group 1",'' @
     ''"status":"DISAPPROVED","topics":[],"reasons":[]},'' @
     ''{"type":"EXPANDED_TEXT_AD","campaign":"Campaign 1","adGroup":"Ad group 1",'' @
     ''"status":null,"topics":[],"reasons":[]}],'' @
     ''"keywords":[{"text":"cheap pills","matchType":"BROAD","campaign":"Campaign 1",'' @
     ''"adGroup":"Ad group 1","status":"DISAPPROVED","topics":[],"reasons":[]}],'' @
     ''"assets":[],"totals":{"ads":2,"keywords":1,"assets":0}}'')\<close>

definition example_payload :: payload where
  "example_payload =
     \<lparr>p_account = JStr (js ''Client (123-456-7890)''),
      p_ads = Some [\<lparr>ai_type = JStr (js ''EXPANDED_TEXT_AD''), ai_campaign = JStr (js ''Campaign 1''),
                     ai_adGroup = JStr (js ''Ad group 1''), ai_status = JStr (js ''DISAPPROVED''),
                     ai_topics = Some [], ai_reasons = Some []\<rparr>,
                    \<lparr>ai_type = JStr (js ''EXPANDED_TEXT_AD''), ai_campaign = JStr (js ''Campaign 1''),
                     ai_adGroup = JStr (js ''Ad group 1''), ai_status = JNull,
                     ai_topics = Some [], ai_reasons = Some []\<rparr>],
      p_keywords = Some [\<lparr>ki_text = JStr (js ''cheap pills''), ki_matchType = JStr (js ''BROAD''),
                          ki_campaign = JStr (js ''Campaign 1''), ki_adGroup = JStr (js ''Ad group 1''),
                          ki_status = JStr (js ''DISAPPROVED''),
                          ki_topics = Some [], ki_reasons = Some []\<rparr>],
      p_assets = Some [],
      p_totals = Some \<lparr>pt_ads = Some 2, pt_keywords = Some 1, pt_assets = Some 0\<rparr>\<rparr>"

definition example_host :: "jsstring \<Rightarrow> host" where
  "example_host now =
     \<lparr>PREVIEW = False,
      Date_toLocaleString = now,
      JSON_parse_context =
        (\<lambda>s. if s = example_context_text
             then Truthy \<lparr>ctx_label = JStr (js ''Managed by Sam''),
                          ctx_to = JStr (js ''sam@example.com''), ctx_cc = JStr []\<rparr>
             else SyntaxError),
      JSON_parse_payload =
        (\<lambda>s. if s = example_payload_text then Truthy example_payload
             else if s = js ''null'' then Falsy
             else SyntaxError)\<rparr>"

definition example_results :: "worker_result list" where
  "example_results =
     [\<lparr>getReturnValue = Some (JStr example_payload_text)\<rparr>,
      \<lparr>getReturnValue = Some JNull\<rparr>,
      \<lparr>getReturnValue = None\<rparr>,
      \<lparr>getReturnValue = Some (JStr (js ''<html>Service unavailable</html>''))\<rparr>]"

text \<open>
  A label group without recipient, and a platform whose fan-out throws whenever it is
  called.
\<close>

definition unassigned_group :: LabelGroup where
  "unassigned_group = \<lparr>lg_label = JStr (js ''Unassigned''), lg_to = JUndefined, lg_cc = JUndefined\<rparr>"

definition failing_platform :: platform where
  "failing_platform =
     \<lparr>JSON_stringify_context = (\<lambda>c. example_context_text),
      executeInParallel = (\<lambda>call w. Inl Thrown)\<rparr>"

text \<open>
  A worker's return value of the same shape as the example payload whose account name and
  item fields hold markup, and a host whose \<open>JSON.parse\<close> reads it.
\<close>

definition hostile_payload_text :: jsstring where
  \<open>hostile_payload_text = js (''{"account":"<b>Client</b>","ads":['' @
     ''{"type":"<script>alert(1)</script>","campaign":"Campaign 1","adGroup":"Ad group 1",'' @
     ''"status":"DISAPPROVED","topics":["</td>"],"reasons":[]},'' @
     ''{"type":"EXPANDED_TEXT_AD","campaign":"Campaign 1","adGroup":"Ad group 1",'' @
     ''"status":null,"topics":[],"reasons":[]}],'' @
     ''"keywords":[{"text":"<img src=x>","matchType":"BROAD","campaign":"Campaign 1",'' @
     ''"adGroup":"Ad group 1","status":"DISAPPROVED","topics":[],"reasons":[]}],'' @
     ''"assets":[],"totals":{"ads":2,"keywords":1,"assets":0}}'')\<close>

definition hostile_ad :: ad_item where
  "hostile_ad =
     \<lparr>ai_type = JStr (js ''<script>alert(1)</script>''), ai_campaign = JStr (js ''Campaign 1''),
      ai_adGroup = JStr (js ''Ad group 1''), ai_status = JStr (js ''DISAPPROVED''),
      ai_topics = Some [js ''</td>''], ai_reasons = Some []\<rparr>"

definition hostile_payload :: payload where
  "hostile_payload =
     \<lparr>p_account = JStr (js ''<b>Client</b>''),
      p_ads = Some [hostile_ad,
                    \<lparr>ai_type = JStr (js ''EXPANDED_TEXT_AD''), ai_campaign = JStr (js ''Campaign 1''),
                     ai_adGroup = JStr (js ''Ad group 1''), ai_status = JNull,
                     ai_topics = Some [], ai_reasons = Some []\<rparr>],
      p_keywords = Some [\<lparr>ki_text = JStr (js ''<img src=x>''), ki_matchType = JStr (js ''BROAD''),
                          ki_campaign = JStr (js ''Campaign 1''), ki_adGroup = JStr (js ''Ad group 1''),
                          ki_status = JStr (js ''DISAPPROVED''),
                          ki_topics = Some [], ki_reasons = Some []\<rparr>],
      p_assets = Some [],
      p_totals = Some \<lparr>pt_ads = Some 2, pt_keywords = Some 1, pt_assets = Some 0\<rparr>\<rparr>"

definition hostile_host :: host where
  "hostile_host =
     (example_host [])\<lparr>JSON_parse_payload :=
        (\<lambda>s. if s = hostile_payload_text then Truthy hostile_payload else SyntaxError)\<rparr>"

definition hostile_results :: "worker_result list" where
  "hostile_results = [\<lparr>getReturnValue = Some (JStr hostile_payload_text)\<rparr>]"

section \<open>Properties of normalizeReasons\<close>

lemma js_or_JStr [simp]: "ToString (js_or (JStr x) (JStr [])) = x"
  by (simp add: js_or_def)

lemma trim_constructor: "trim (js ''constructor'') = js ''constructor''"
  by (simp add: trim_def js_def is_ws_def)

text \<open>
  With \<open>seen\<close> holding exactly the keys of \<open>S\<close>, and on strings whose trimmed value is no
  property name of \<open>Object.prototype\<close>, the loop appends what the specification describes.
\<close>

lemma normalizeReasons_loop_spec:
  assumes "\<forall>s \<in> set arr. trim s \<notin> set Object_prototype_keys"
      and "\<forall>k. seen k = (if k \<in> set S then Some True else None)"
  shows "normalizeReasons_loop (map JStr arr) seen out =
           out @ keep_first S (filter (\<lambda>v. v \<noteq> []) (map trim arr))"
  using assms
proof (induction arr arbitrary: seen S out)
  case Nil
  then show ?case by simp
next
  case (Cons x arr)
  have rest: "\<forall>s \<in> set arr. trim s \<notin> set Object_prototype_keys"
    using Cons.prems(1) by simp
  have get: "seen_get seen (trim x) = (trim x \<in> set S)"
    using Cons.prems by (simp add: seen_get_def)
  show ?case
  proof (cases "trim x \<noteq> [] \<and> trim x \<notin> set S")
    case True
    have upd: "\<forall>k. (seen(trim x \<mapsto> True)) k = (if k \<in> set (trim x # S) then Some True else None)"
      using Cons.prems(2) by simp
    have "normalizeReasons_loop (map JStr arr) (seen(trim x \<mapsto> True)) (out @ [trim x]) =
            (out @ [trim x]) @ keep_first (trim x # S) (filter (\<lambda>v. v \<noteq> []) (map trim arr))"
      by (rule Cons.IH [OF rest upd])
    with True show ?thesis by (simp add: get Let_def del: fun_upd_apply)
  next
    case False
    have "normalizeReasons_loop (map JStr arr) seen out =
            out @ keep_first S (filter (\<lambda>v. v \<noteq> []) (map trim arr))"
      by (rule Cons.IH [OF rest Cons.prems(2)])
    with False show ?thesis by (auto simp add: get Let_def)
  qed
qed

text \<open>
  On every array of strings none of which trims to a property name of \<open>Object.prototype\<close>,
  \<open>normalizeReasons\<close> is the normalisation the specification describes.
\<close>

lemma normalizeReasons_spec:
  assumes "\<forall>s \<in> set arr. trim s \<notin> set Object_prototype_keys"
  shows "normalizeReasons (map JStr arr) = normalize_spec arr"
  using normalizeReasons_loop_spec [OF assms, of Map.empty "[]" "[]"]
  by (simp add: normalizeReasons_def normalize_spec_def)

text \<open>The example of the specification: \<open>["A","A","B"]\<close> yields \<open>["A","B"]\<close>.\<close>

lemma normalizeReasons_example:
  "normalizeReasons [JStr (js ''A''), JStr (js ''A''), JStr (js ''B'')] = [js ''A'', js ''B'']"
  by (simp add: normalizeReasons_def trim_def js_def is_ws_def seen_get_def
      Object_prototype_keys_def)

text \<open>
  Claim C5 says that for every array of strings \<open>normalizeReasons\<close> returns the trimmed,
  non-empty values with the first occurrence of each kept. On the array \<open>["constructor"]\<close>
  the normalisation so described is \<open>["constructor"]\<close>, and the function returns the empty
  array: \<open>seen["constructor"]\<close> reads the inherited \<open>Object.prototype.constructor\<close>, which
  is truthy, so the string is taken for a duplicate and never pushed.
\<close>

theorem normalizeReasons_drops_constructor:
  "normalizeReasons [JStr (js ''constructor'')] = [] \<and>
   normalize_spec [js ''constructor''] = [js ''constructor'']"
proof
  show "normalizeReasons [JStr (js ''constructor'')] = []"
    by (simp add: normalizeReasons_def trim_constructor seen_get_def Object_prototype_keys_def)
  show "normalize_spec [js ''constructor''] = [js ''constructor'']"
    by (simp add: normalize_spec_def trim_constructor) (simp add: js_def)
qed

section \<open>Properties of getStats\<close>

lemma ad_row_status: "ad_row ad = Inr r \<Longrightarrow> ad_status r = ad_status_read ad"
  by (auto simp: ad_row_def ad_record_def split: sum.splits)

lemma keyword_row_status: "keyword_row kw = Inr r \<Longrightarrow> kw_status r = keyword_status_read kw"
  by (auto simp: keyword_row_def keyword_record_def split: sum.splits)

lemma asset_row_status: "as_status (asset_row a) = asset_status_read a"
  by (simp add: asset_row_def asset_record_def)

lemma ads_loop_None:
  "ads_loop xs acc = (got, None) \<Longrightarrow>
   map Inr got =
     map Inr acc @ map ad_row (filter (\<lambda>ad. ToString (ad_status_read ad) \<noteq> js ''APPROVED'') xs)"
proof (induction xs arbitrary: acc)
  case Nil
  then show ?case by simp
next
  case (Cons ad xs)
  show ?case
  proof (cases "ToString (ad_status_read ad) = js ''APPROVED''")
    case True
    with Cons.prems have "ads_loop xs acc = (got, None)"
      by (simp add: ad_status_read_def)
    from Cons.IH [OF this] True show ?thesis by simp
  next
    case False
    show ?thesis
    proof (cases "ad_row ad")
      case (Inl e)
      with False Cons.prems show ?thesis
        by (simp add: ad_status_read_def ad_row_def)
    next
      case (Inr r)
      with False Cons.prems have "ads_loop xs (acc @ [r]) = (got, None)"
        by (simp add: ad_status_read_def ad_row_def)
      from Cons.IH [OF this] False Inr show ?thesis by simp
    qed
  qed
qed

lemma keywords_loop_None:
  "keywords_loop xs acc = (got, None) \<Longrightarrow>
   map Inr got =
     map Inr acc @
     map keyword_row (filter (\<lambda>kw. ToString (keyword_status_read kw) \<noteq> js ''APPROVED'') xs)"
proof (induction xs arbitrary: acc)
  case Nil
  then show ?case by simp
next
  case (Cons kw xs)
  show ?case
  proof (cases "ToString (keyword_status_read kw) = js ''APPROVED''")
    case True
    with Cons.prems have "keywords_loop xs acc = (got, None)"
      by (simp add: keyword_status_read_def)
    from Cons.IH [OF this] True show ?thesis by simp
  next
    case False
    show ?thesis
    proof (cases "keyword_row kw")
      case (Inl e)
      with False Cons.prems show ?thesis
        by (simp add: keyword_status_read_def keyword_row_def)
    next
      case (Inr r)
      with False Cons.prems have "keywords_loop xs (acc @ [r]) = (got, None)"
        by (simp add: keyword_status_read_def keyword_row_def)
      from Cons.IH [OF this] False Inr show ?thesis by simp
    qed
  qed
qed

lemma assets_loop_eq:
  "assets_loop xs acc =
     acc @ map asset_row
       (filter (\<lambda>a. truthy (asset_status_read a) \<and> ToString (asset_status_read a) \<noteq> js ''APPROVED'') xs)"
  by (induction xs arbitrary: acc) (auto simp: Let_def asset_status_read_def asset_row_def)

lemma scan_keywords_ads [simp]: "out_ads (fst (scan_keywords cfg acct out)) = out_ads out"
  by (simp add: scan_keywords_def split: meth.splits prod.splits option.splits)

lemma scan_assets_ads [simp]: "out_ads (scan_assets cfg acct out) = out_ads out"
  by (simp add: scan_assets_def Let_def split: meth.splits)

lemma scan_assets_keywords [simp]: "out_keywords (scan_assets cfg acct out) = out_keywords out"
  by (simp add: scan_assets_def Let_def split: meth.splits)

lemma scan_ads_keywords [simp]: "out_keywords (fst (scan_ads cfg acct out)) = out_keywords out"
  by (simp add: scan_ads_def split: meth.splits prod.splits option.splits)

lemma scan_ads_assets [simp]: "out_assets (fst (scan_ads cfg acct out)) = out_assets out"
  by (simp add: scan_ads_def split: meth.splits prod.splits option.splits)

lemma scan_keywords_assets [simp]: "out_assets (fst (scan_keywords cfg acct out)) = out_assets out"
  by (simp add: scan_keywords_def split: meth.splits prod.splits option.splits)

lemma scan_ads_out_ads:
  "out_ads out = [] \<Longrightarrow> out_ads (fst (scan_ads cfg acct out)) = fst (ads_loop (scanned_ads cfg acct) [])"
  by (simp add: scan_ads_def scanned_ads_def split: meth.splits prod.splits option.splits)

lemma scan_keywords_out_keywords:
  "out_keywords out = [] \<Longrightarrow>
   out_keywords (fst (scan_keywords cfg acct out)) = fst (keywords_loop (scanned_keywords cfg acct) [])"
  by (simp add: scan_keywords_def scanned_keywords_def split: meth.splits prod.splits option.splits)

lemma scan_assets_out_assets:
  "out_assets out = [] \<Longrightarrow>
   out_assets (scan_assets cfg acct out) = assets_loop (scanned_assets cfg acct) []"
  by (simp add: scan_assets_def scanned_assets_def Let_def split: meth.splits)

lemma getStats_out_ads:
  "out_ads (fst (getStats cfg acct)) = fst (ads_loop (scanned_ads cfg acct) [])"
  by (simp add: getStats_def Let_def split_beta scan_ads_out_ads)

lemma getStats_out_keywords:
  "out_keywords (fst (getStats cfg acct)) = fst (keywords_loop (scanned_keywords cfg acct) [])"
  by (simp add: getStats_def Let_def split_beta scan_keywords_out_keywords)

lemma getStats_out_assets:
  "out_assets (fst (getStats cfg acct)) = assets_loop (scanned_assets cfg acct) []"
  by (simp add: getStats_def Let_def split_beta scan_assets_out_assets)

lemma scan_keywords_tot_ads [simp]:
  "tot_ads (out_totals (fst (scan_keywords cfg acct out))) = tot_ads (out_totals out)"
  by (simp add: scan_keywords_def split: meth.splits prod.splits option.splits)

lemma scan_assets_tot_ads [simp]:
  "tot_ads (out_totals (scan_assets cfg acct out)) = tot_ads (out_totals out)"
  by (simp add: scan_assets_def Let_def split: meth.splits)

lemma scan_assets_tot_keywords [simp]:
  "tot_keywords (out_totals (scan_assets cfg acct out)) = tot_keywords (out_totals out)"
  by (simp add: scan_assets_def Let_def split: meth.splits)

lemma getStats_tot_ads:
  "tot_ads (out_totals (fst (getStats cfg acct))) =
     (if ads_scan_completes cfg acct then length (out_ads (fst (getStats cfg acct))) else 0)"
  by (simp add: getStats_def Let_def split_beta scan_ads_def ads_scan_completes_def
      split: meth.splits prod.splits option.splits)

lemma getStats_tot_keywords:
  "tot_keywords (out_totals (fst (getStats cfg acct))) =
     (if keywords_scan_completes cfg acct then length (out_keywords (fst (getStats cfg acct))) else 0)"
  by (simp add: getStats_def Let_def split_beta scan_keywords_def scan_ads_def
      keywords_scan_completes_def
      split: meth.splits prod.splits option.splits)

lemma getStats_tot_assets:
  "tot_assets (out_totals (fst (getStats cfg acct))) = length (out_assets (fst (getStats cfg acct)))"
  by (simp add: getStats_def Let_def split_beta scan_assets_def scan_keywords_def scan_ads_def
      split: meth.splits prod.splits option.splits)

lemma extractPolicyInfo_Absent [simp]:
  "extractPolicyInfo Absent = \<lparr>topics = [], reasons = []\<rparr>"
  by (simp add: extractPolicyInfo_def normalizeReasons_def)

lemma not_approved_strings [simp]:
  "js ''DISAPPROVED'' \<noteq> js ''APPROVED''" "js ''approved'' \<noteq> js ''APPROVED''"
  "js ''null'' \<noteq> js ''APPROVED''" "js ''DISAPPROVED'' \<noteq> js ''approved''"
  "js ''APPROVED'' \<noteq> js ''approved''" "js ''DISAPPROVED'' \<noteq> []"
  by (simp_all add: js_def)

lemma scanned_account_of [simp]:
  "scanned_ads CONFIG (account_of as ks ss) = take 5000 as"
  "scanned_keywords CONFIG (account_of as ks ss) = take 5000 ks"
  "scanned_assets CONFIG (account_of as ks ss) = take 5000 ss"
  by (simp_all add: scanned_ads_def scanned_keywords_def scanned_assets_def account_of_def CONFIG_def)

lemma ad_row_disapproved:
  "ad_row disapproved_ad =
     Inr \<lparr>ad_type = JStr (js ''EXPANDED_TEXT_AD''), ad_campaign = JStr (js ''Campaign 1''),
          ad_adGroup = JStr (js ''Ad group 1''), ad_status = JStr (js ''DISAPPROVED''),
          ad_topics = [], ad_reasons = []\<rparr>"
  by (simp add: ad_row_def ad_record_def disapproved_ad_def ad_status_read_def)

lemma ads_loop_broken:
  "ads_loop [disapproved_ad, broken_ad] [] =
     ([\<lparr>ad_type = JStr (js ''EXPANDED_TEXT_AD''), ad_campaign = JStr (js ''Campaign 1''),
        ad_adGroup = JStr (js ''Ad group 1''), ad_status = JStr (js ''DISAPPROVED''),
        ad_topics = [], ad_reasons = []\<rparr>], Some Thrown)"
  by (simp add: ad_record_def disapproved_ad_def broken_ad_def)

text \<open>
  Claim C3 says that \<open>totals.ads = length(ads)\<close> in every result of \<open>getStats\<close>, also
  when a loop throws partway through. The assignment to \<open>out.totals.ads\<close> stands inside
  the \<open>try\<close>, after the loop: on an account whose first ad is disapproved and whose second
  ad throws in \<open>getCampaign()\<close>, the returned object lists one ad and counts none.
\<close>

theorem getStats_totals_stale:
  "tot_ads (out_totals (fst (getStats CONFIG (account_of [disapproved_ad, broken_ad] [] [])))) = 0 \<and>
   length (out_ads (fst (getStats CONFIG (account_of [disapproved_ad, broken_ad] [] [])))) = 1"
proof -
  have "\<not> ads_scan_completes CONFIG (account_of [disapproved_ad, broken_ad] [] [])"
    by (simp add: ads_scan_completes_def account_of_def CONFIG_def ads_loop_broken
        del: ads_loop.simps)
  then show ?thesis
    by (simp add: getStats_tot_ads getStats_out_ads ads_loop_broken del: ads_loop.simps)
qed

lemma ads_complete_map:
  assumes "ads_scan_completes cfg acct"
  shows "map Inr (out_ads (fst (getStats cfg acct))) =
           map ad_row (filter (\<lambda>ad. ToString (ad_status_read ad) \<noteq> js ''APPROVED'')
                         (scanned_ads cfg acct))"
proof -
  from assms have "snd (ads_loop (scanned_ads cfg acct) []) = None"
    by (simp add: ads_scan_completes_def scanned_ads_def split: meth.splits)
  then have "ads_loop (scanned_ads cfg acct) [] = (fst (ads_loop (scanned_ads cfg acct) []), None)"
    by (metis prod.collapse)
  from ads_loop_None [OF this] show ?thesis
    by (simp add: getStats_out_ads)
qed

lemma keywords_complete_map:
  assumes "keywords_scan_completes cfg acct"
  shows "map Inr (out_keywords (fst (getStats cfg acct))) =
           map keyword_row (filter (\<lambda>kw. ToString (keyword_status_read kw) \<noteq> js ''APPROVED'')
                              (scanned_keywords cfg acct))"
proof -
  from assms have "snd (keywords_loop (scanned_keywords cfg acct) []) = None"
    by (simp add: keywords_scan_completes_def scanned_keywords_def split: meth.splits)
  then have "keywords_loop (scanned_keywords cfg acct) [] =
               (fst (keywords_loop (scanned_keywords cfg acct) []), None)"
    by (metis prod.collapse)
  from keywords_loop_None [OF this] show ?thesis
    by (simp add: getStats_out_keywords)
qed

lemma assets_map:
  "out_assets (fst (getStats cfg acct)) =
     map asset_row
       (filter (\<lambda>a. truthy (asset_status_read a) \<and> ToString (asset_status_read a) \<noteq> js ''APPROVED'')
          (scanned_assets cfg acct))"
  by (simp add: getStats_out_assets assets_loop_eq)

lemma ads_listed_iff:
  assumes "ads_scan_completes cfg acct" and "ad \<in> set (scanned_ads cfg acct)"
  shows "(\<exists>r \<in> set (out_ads (fst (getStats cfg acct))). ad_row ad = Inr r) \<longleftrightarrow>
           ToString (ad_status_read ad) \<noteq> js ''APPROVED''"
proof
  assume "\<exists>r \<in> set (out_ads (fst (getStats cfg acct))). ad_row ad = Inr r"
  then obtain r where r: "r \<in> set (out_ads (fst (getStats cfg acct)))" and row: "ad_row ad = Inr r"
    by blast
  from r have "Inr r \<in> set (map Inr (out_ads (fst (getStats cfg acct))) :: (error + DisapprovedAd) list)"
    by simp
  then obtain ad' where "ToString (ad_status_read ad') \<noteq> js ''APPROVED''" and "ad_row ad' = Inr r"
    unfolding ads_complete_map [OF assms(1)] by auto
  with row show "ToString (ad_status_read ad) \<noteq> js ''APPROVED''"
    by (metis ad_row_status)
next
  assume "ToString (ad_status_read ad) \<noteq> js ''APPROVED''"
  with assms(2) have "ad_row ad \<in> set (map Inr (out_ads (fst (getStats cfg acct))))"
    unfolding ads_complete_map [OF assms(1)] by simp
  then show "\<exists>r \<in> set (out_ads (fst (getStats cfg acct))). ad_row ad = Inr r"
    by auto
qed

lemma keywords_listed_iff:
  assumes "keywords_scan_completes cfg acct" and "kw \<in> set (scanned_keywords cfg acct)"
  shows "(\<exists>r \<in> set (out_keywords (fst (getStats cfg acct))). keyword_row kw = Inr r) \<longleftrightarrow>
           ToString (keyword_status_read kw) \<noteq> js ''APPROVED''"
proof
  assume "\<exists>r \<in> set (out_keywords (fst (getStats cfg acct))). keyword_row kw = Inr r"
  then obtain r where r: "r \<in> set (out_keywords (fst (getStats cfg acct)))"
    and row: "keyword_row kw = Inr r"
    by blast
  from r have "Inr r \<in> set (map Inr (out_keywords (fst (getStats cfg acct))) :: (error + DisapprovedKeyword) list)"
    by simp
  then obtain kw' where "ToString (keyword_status_read kw') \<noteq> js ''APPROVED''"
    and "keyword_row kw' = Inr r"
    unfolding keywords_complete_map [OF assms(1)] by auto
  with row show "ToString (keyword_status_read kw) \<noteq> js ''APPROVED''"
    by (metis keyword_row_status)
next
  assume "ToString (keyword_status_read kw) \<noteq> js ''APPROVED''"
  with assms(2) have "keyword_row kw \<in> set (map Inr (out_keywords (fst (getStats cfg acct))))"
    unfolding keywords_complete_map [OF assms(1)] by simp
  then show "\<exists>r \<in> set (out_keywords (fst (getStats cfg acct))). keyword_row kw = Inr r"
    by auto
qed

lemma assets_listed_iff:
  assumes "a \<in> set (scanned_assets cfg acct)"
  shows "asset_row a \<in> set (out_assets (fst (getStats cfg acct))) \<longleftrightarrow>
           (truthy (asset_status_read a) \<and> ToString (asset_status_read a) \<noteq> js ''APPROVED'')"
proof
  assume "asset_row a \<in> set (out_assets (fst (getStats cfg acct)))"
  then obtain a' where "truthy (asset_status_read a') \<and> ToString (asset_status_read a') \<noteq> js ''APPROVED''"
    and "asset_row a' = asset_row a"
    unfolding assets_map by auto
  then show "truthy (asset_status_read a) \<and> ToString (asset_status_read a) \<noteq> js ''APPROVED''"
    by (metis asset_row_status)
next
  assume "truthy (asset_status_read a) \<and> ToString (asset_status_read a) \<noteq> js ''APPROVED''"
  with assms show "asset_row a \<in> set (out_assets (fst (getStats cfg acct)))"
    unfolding assets_map by simp
qed

text \<open>
  Claim C1, as amended: in a category whose loop runs to its end, a scanned ad or keyword
  is listed if and only if the string of its status is not exactly \<open>APPROVED\<close>, so one
  whose status read failed (status \<open>null\<close>) is listed; a scanned asset is listed if and only
  if its status is truthy and its string is not exactly \<open>APPROVED\<close>, so an asset without a
  status is skipped.
\<close>

theorem listed_iff_status:
  "(ads_scan_completes cfg acct \<longrightarrow>
      (\<forall>ad \<in> set (scanned_ads cfg acct).
         (\<exists>r \<in> set (out_ads (fst (getStats cfg acct))). ad_row ad = Inr r) \<longleftrightarrow>
         ToString (ad_status_read ad) \<noteq> js ''APPROVED'')) \<and>
   (keywords_scan_completes cfg acct \<longrightarrow>
      (\<forall>kw \<in> set (scanned_keywords cfg acct).
         (\<exists>r \<in> set (out_keywords (fst (getStats cfg acct))). keyword_row kw = Inr r) \<longleftrightarrow>
         ToString (keyword_status_read kw) \<noteq> js ''APPROVED'')) \<and>
   (\<forall>a \<in> set (scanned_assets cfg acct).
      asset_row a \<in> set (out_assets (fst (getStats cfg acct))) \<longleftrightarrow>
      (truthy (asset_status_read a) \<and> ToString (asset_status_read a) \<noteq> js ''APPROVED''))"
  using ads_listed_iff keywords_listed_iff assets_listed_iff by blast

text \<open>
  Claim C2, as amended: in a category whose loop runs to its end, the list holds, in scan
  order, exactly one record for each scanned ad or keyword whose status string is not
  exactly \<open>APPROVED\<close> (a failed read gives \<open>null\<close>, whose string is not \<open>APPROVED\<close>), and
  none for the others; a scanned asset whose status is \<open>null\<close> or absent is in no list.
\<close>

theorem listed_exactly_once:
  "(ads_scan_completes cfg acct \<longrightarrow>
      map Inr (out_ads (fst (getStats cfg acct))) =
        map ad_row (filter (\<lambda>ad. ToString (ad_status_read ad) \<noteq> js ''APPROVED'')
                      (scanned_ads cfg acct))) \<and>
   (keywords_scan_completes cfg acct \<longrightarrow>
      map Inr (out_keywords (fst (getStats cfg acct))) =
        map keyword_row (filter (\<lambda>kw. ToString (keyword_status_read kw) \<noteq> js ''APPROVED'')
                           (scanned_keywords cfg acct))) \<and>
   (\<forall>a \<in> set (scanned_assets cfg acct).
      \<not> truthy (asset_status_read a) \<longrightarrow>
      asset_row a \<notin> set (out_assets (fst (getStats cfg acct))))"
  using ads_complete_map keywords_complete_map assets_listed_iff by blast

lemma status_reads [simp]:
  "ad_status_read disapproved_ad = JStr (js ''DISAPPROVED'')"
  "ad_status_read broken_ad = JStr (js ''DISAPPROVED'')"
  "ad_status_read approved_ad = JStr (js ''APPROVED'')"
  "ad_status_read lowercase_ad = JStr (js ''approved'')"
  "ad_status_read unread_ad = JNull"
  "keyword_status_read disapproved_keyword = JStr (js ''DISAPPROVED'')"
  "asset_status_read disapproved_asset = JStr (js ''DISAPPROVED'')"
  "asset_status_read statusless_asset = JNull"
  by (simp_all add: ad_status_read_def keyword_status_read_def asset_status_read_def
      disapproved_ad_def broken_ad_def approved_ad_def lowercase_ad_def unread_ad_def
      disapproved_keyword_def disapproved_asset_def statusless_asset_def)

lemma ad_rows [simp]:
  "ad_row unread_ad =
     Inr \<lparr>ad_type = JStr (js ''EXPANDED_TEXT_AD''), ad_campaign = JStr (js ''Campaign 1''),
          ad_adGroup = JStr (js ''Ad group 1''), ad_status = JNull,
          ad_topics = [], ad_reasons = []\<rparr>"
  "ad_row lowercase_ad =
     Inr \<lparr>ad_type = JStr (js ''EXPANDED_TEXT_AD''), ad_campaign = JStr (js ''Campaign 1''),
          ad_adGroup = JStr (js ''Ad group 1''), ad_status = JStr (js ''approved''),
          ad_topics = [], ad_reasons = []\<rparr>"
  "ad_row broken_ad = Inl Thrown"
  by (simp_all add: ad_row_def ad_record_def unread_ad_def lowercase_ad_def broken_ad_def
      disapproved_ad_def ad_status_read_def)

lemma keyword_row_disapproved [simp]:
  "keyword_row disapproved_keyword =
     Inr \<lparr>kw_text = JStr (js ''cheap pills''), kw_matchType = JStr (js ''BROAD''),
          kw_campaign = JStr (js ''Campaign 1''), kw_adGroup = JStr (js ''Ad group 1''),
          kw_status = JStr (js ''DISAPPROVED''), kw_topics = [], kw_reasons = []\<rparr>"
  by (simp add: keyword_row_def keyword_record_def disapproved_keyword_def keyword_status_read_def)

text \<open>One step of a loop, in the vocabulary of the properties.\<close>

lemma ads_loop_step:
  "ads_loop (ad # xs) acc =
     (if ToString (ad_status_read ad) = js ''APPROVED'' then ads_loop xs acc
      else case ad_row ad of Inl e \<Rightarrow> (acc, Some e) | Inr r \<Rightarrow> ads_loop xs (acc @ [r]))"
  by (simp add: ad_status_read_def ad_row_def)

lemma keywords_loop_step:
  "keywords_loop (kw # xs) acc =
     (if ToString (keyword_status_read kw) = js ''APPROVED'' then keywords_loop xs acc
      else case keyword_row kw of Inl e \<Rightarrow> (acc, Some e) | Inr r \<Rightarrow> keywords_loop xs (acc @ [r]))"
  by (simp add: keyword_status_read_def keyword_row_def)

text \<open>
  Against claim C1 as stated: an ad whose status call throws is listed (with status
  \<open>null\<close>), an ad whose status is exactly \<open>approved\<close> in lower case is listed, and an
  asset with no status is not listed.
\<close>

theorem failed_status_read_is_listed:
  "out_ads (fst (getStats CONFIG (account_of [unread_ad, lowercase_ad] [] [statusless_asset]))) =
     [\<lparr>ad_type = JStr (js ''EXPANDED_TEXT_AD''), ad_campaign = JStr (js ''Campaign 1''),
       ad_adGroup = JStr (js ''Ad group 1''), ad_status = JNull,
       ad_topics = [], ad_reasons = []\<rparr>,
      \<lparr>ad_type = JStr (js ''EXPANDED_TEXT_AD''), ad_campaign = JStr (js ''Campaign 1''),
       ad_adGroup = JStr (js ''Ad group 1''), ad_status = JStr (js ''approved''),
       ad_topics = [], ad_reasons = []\<rparr>] \<and>
   out_assets (fst (getStats CONFIG (account_of [unread_ad, lowercase_ad] [] [statusless_asset]))) = []"
  by (simp add: getStats_out_ads assets_map ads_loop_step del: ads_loop.simps(2))

text \<open>
  Against claim C2 as stated: neither of two scanned ads has the status \<open>approved\<close>, and
  neither is listed: the first has the platform's status \<open>APPROVED\<close>, the second is
  disapproved and its \<open>getCampaign()\<close> throws, which ends the loop.
\<close>

theorem not_approved_yet_unlisted:
  "ToString (ad_status_read approved_ad) \<noteq> js ''approved'' \<and>
   ToString (ad_status_read broken_ad) \<noteq> js ''approved'' \<and>
   out_ads (fst (getStats CONFIG (account_of [approved_ad, broken_ad] [] []))) = []"
  by (simp add: getStats_out_ads ads_loop_step del: ads_loop.simps(2))

lemma example_scan_completes:
  "ads_scan_completes CONFIG
     (account_of [disapproved_ad, approved_ad, unread_ad] [disapproved_keyword]
        [disapproved_asset, statusless_asset])"
  "keywords_scan_completes CONFIG
     (account_of [disapproved_ad, approved_ad, unread_ad] [disapproved_keyword]
        [disapproved_asset, statusless_asset])"
  by (simp_all add: ads_scan_completes_def keywords_scan_completes_def account_of_def CONFIG_def
      ads_loop_step keywords_loop_step ad_row_disapproved
      del: ads_loop.simps(2) keywords_loop.simps(2))

text \<open>Claim C1 as amended, on an account with three ads, a keyword and two assets.\<close>

theorem listed_iff_status_witness:
  "ads_scan_completes CONFIG
     (account_of [disapproved_ad, approved_ad, unread_ad] [disapproved_keyword]
        [disapproved_asset, statusless_asset]) \<and>
   keywords_scan_completes CONFIG
     (account_of [disapproved_ad, approved_ad, unread_ad] [disapproved_keyword]
        [disapproved_asset, statusless_asset]) \<and>
   (\<exists>r \<in> set (out_ads (fst (getStats CONFIG
       (account_of [disapproved_ad, approved_ad, unread_ad] [disapproved_keyword]
          [disapproved_asset, statusless_asset])))). ad_row unread_ad = Inr r) \<and>
   \<not> (\<exists>r \<in> set (out_ads (fst (getStats CONFIG
       (account_of [disapproved_ad, approved_ad, unread_ad] [disapproved_keyword]
          [disapproved_asset, statusless_asset])))). ad_row approved_ad = Inr r) \<and>
   (\<exists>r \<in> set (out_keywords (fst (getStats CONFIG
       (account_of [disapproved_ad, approved_ad, unread_ad] [disapproved_keyword]
          [disapproved_asset, statusless_asset])))). keyword_row disapproved_keyword = Inr r) \<and>
   asset_row disapproved_asset \<in> set (out_assets (fst (getStats CONFIG
       (account_of [disapproved_ad, approved_ad, unread_ad] [disapproved_keyword]
          [disapproved_asset, statusless_asset])))) \<and>
   asset_row statusless_asset \<notin> set (out_assets (fst (getStats CONFIG
       (account_of [disapproved_ad, approved_ad, unread_ad] [disapproved_keyword]
          [disapproved_asset, statusless_asset]))))"
  (is "?A \<and> ?K \<and> ?Pa \<and> \<not> ?Pb \<and> ?Pc \<and> ?Pd \<and> ?Pe")
proof -
  let ?acct = "account_of [disapproved_ad, approved_ad, unread_ad] [disapproved_keyword]
                 [disapproved_asset, statusless_asset]"
  note inst = listed_iff_status [of CONFIG ?acct]
  have a: ?A and k: ?K
    by (rule example_scan_completes)+
  have m: "unread_ad \<in> set (scanned_ads CONFIG ?acct)"
    "approved_ad \<in> set (scanned_ads CONFIG ?acct)"
    "disapproved_keyword \<in> set (scanned_keywords CONFIG ?acct)"
    "disapproved_asset \<in> set (scanned_assets CONFIG ?acct)"
    "statusless_asset \<in> set (scanned_assets CONFIG ?acct)"
    by simp_all
  have s: "ToString (ad_status_read unread_ad) \<noteq> js ''APPROVED''"
    "ToString (ad_status_read approved_ad) = js ''APPROVED''"
    "ToString (keyword_status_read disapproved_keyword) \<noteq> js ''APPROVED''"
    "truthy (asset_status_read disapproved_asset) \<and>
     ToString (asset_status_read disapproved_asset) \<noteq> js ''APPROVED''"
    "\<not> truthy (asset_status_read statusless_asset)"
    by simp_all
  from inst a m(1) s(1) have p1: ?Pa by blast
  from inst a m(2) s(2) have p2: "\<not> ?Pb" by blast
  from inst k m(3) s(3) have p3: ?Pc by blast
  from inst m(4) s(4) have p4: ?Pd by blast
  from inst m(5) s(5) have p5: ?Pe by blast
  from a k p1 p2 p3 p4 p5 show ?thesis by blast
qed

text \<open>Claim C2 as amended, on the same account.\<close>

theorem listed_exactly_once_witness:
  "ads_scan_completes CONFIG
     (account_of [disapproved_ad, approved_ad, unread_ad] [disapproved_keyword]
        [disapproved_asset, statusless_asset]) \<and>
   keywords_scan_completes CONFIG
     (account_of [disapproved_ad, approved_ad, unread_ad] [disapproved_keyword]
        [disapproved_asset, statusless_asset]) \<and>
   map Inr (out_ads (fst (getStats CONFIG
       (account_of [disapproved_ad, approved_ad, unread_ad] [disapproved_keyword]
          [disapproved_asset, statusless_asset])))) = [ad_row disapproved_ad, ad_row unread_ad] \<and>
   map Inr (out_keywords (fst (getStats CONFIG
       (account_of [disapproved_ad, approved_ad, unread_ad] [disapproved_keyword]
          [disapproved_asset, statusless_asset])))) = [keyword_row disapproved_keyword] \<and>
   asset_row statusless_asset \<notin> set (out_assets (fst (getStats CONFIG
       (account_of [disapproved_ad, approved_ad, unread_ad] [disapproved_keyword]
          [disapproved_asset, statusless_asset]))))"
  (is "?A \<and> ?K \<and> ?Pa \<and> ?Pb \<and> ?Pc")
proof -
  let ?acct = "account_of [disapproved_ad, approved_ad, unread_ad] [disapproved_keyword]
                 [disapproved_asset, statusless_asset]"
  note inst = listed_exactly_once [of CONFIG ?acct]
  have a: ?A and k: ?K
    by (rule example_scan_completes)+
  have m: "statusless_asset \<in> set (scanned_assets CONFIG ?acct)"
    by simp
  have s: "\<not> truthy (asset_status_read statusless_asset)"
    by simp
  from inst a have p1: ?Pa by simp
  from inst k have p2: ?Pb by simp
  from inst m s have p3: ?Pc by blast
  from a k p1 p2 p3 show ?thesis by blast
qed

section \<open>Properties of generateOutput\<close>

lemma parsed_payloads_Nil [simp]: "parsed_payloads P [] = []"
  by (simp add: parsed_payloads_def List.map_filter_simps)

lemma parsed_payloads_Cons:
  "parsed_payloads P (res # results) =
     (case getReturnValue res of
        None \<Rightarrow> parsed_payloads P results
      | Some v \<Rightarrow> (case parseSafe P v of
                     None \<Rightarrow> parsed_payloads P results
                   | Some p \<Rightarrow> p # parsed_payloads P results))"
  by (simp add: parsed_payloads_def List.map_filter_simps split: option.splits)

lemma merge_loop_eq:
  "merge_loop P results m =
     \<lparr>label = label m,
      rows = rows m @ map payload_row (parsed_payloads P results),
      totals = \<lparr>sum_ads = sum_ads (totals m) + sum_list (map (payload_count pt_ads) (parsed_payloads P results)),
                sum_keywords = sum_keywords (totals m) + sum_list (map (payload_count pt_keywords) (parsed_payloads P results)),
                sum_assets = sum_assets (totals m) + sum_list (map (payload_count pt_assets) (parsed_payloads P results)),
                accounts = accounts (totals m) + length (parsed_payloads P results)\<rparr>\<rparr>"
proof (induction results arbitrary: m)
  case Nil
  show ?case by simp
next
  case (Cons res results)
  show ?case
    by (simp add: Cons.IH parsed_payloads_Cons payload_row_def split: option.splits)
qed

lemma generateOutput_merged:
  assumes "generateOutput cfg h results contextStr = Inr out"
  shows "rows (merged out) = map payload_row (parsed_payloads (JSON_parse_payload h) results)"
    and "sum_ads (totals (merged out)) = sum_list (map (payload_count pt_ads) (parsed_payloads (JSON_parse_payload h) results))"
    and "sum_keywords (totals (merged out)) = sum_list (map (payload_count pt_keywords) (parsed_payloads (JSON_parse_payload h) results))"
    and "sum_assets (totals (merged out)) = sum_list (map (payload_count pt_assets) (parsed_payloads (JSON_parse_payload h) results))"
    and "accounts (totals (merged out)) = length (parsed_payloads (JSON_parse_payload h) results)"
  using assms
  by (auto simp: generateOutput_def Let_def merge_loop_eq split: if_splits)

lemma generateOutput_subject:
  assumes "generateOutput cfg h results contextStr = Inr out"
  shows "subject out =
           buildSubject cfg (label (merged out))
             (sum_ads (totals (merged out)) + sum_keywords (totals (merged out)) +
              sum_assets (totals (merged out)))
             (totals (merged out))"
  using assms
  by (auto simp: generateOutput_def Let_def merge_loop_eq split: if_splits)

lemma example_texts [simp]:
  "example_context_text \<noteq> []" "js ''null'' \<noteq> example_payload_text"
  "js ''<html>Service unavailable</html>'' \<noteq> example_payload_text"
  "js ''<html>Service unavailable</html>'' \<noteq> js ''null''"
  by (simp_all add: example_context_text_def example_payload_text_def js_def)

lemma example_parsed:
  "parsed_payloads (JSON_parse_payload (example_host now)) example_results = [example_payload]"
  by (simp add: parsed_payloads_Cons example_results_def example_host_def parseSafe_def)

lemma trim_sam: "trim (js ''sam@example.com'') = js ''sam@example.com''"
  by (simp add: trim_def js_def is_ws_def)

lemma sam_nonempty: "js ''sam@example.com'' \<noteq> []"
  by (simp add: js_def)

lemma example_recipient:
  "ctx_string (parse_context (example_host now) (JStr example_context_text)) ctx_to (DEFAULT_TO CONFIG)
     = js ''sam@example.com''"
  by (simp add: ctx_string_def parse_context_def example_host_def js_or_def trim_sam sam_nonempty)

lemma generateOutput_Inr_iff:
  "(\<exists>out. generateOutput cfg h results contextStr = Inr out) \<longleftrightarrow>
     ctx_string (parse_context h contextStr) ctx_to (DEFAULT_TO cfg) \<noteq> []"
  by (simp add: generateOutput_def Let_def)

lemma example_runs:
  "\<exists>out. generateOutput CONFIG (example_host now) example_results (JStr example_context_text) = Inr out"
  by (simp add: generateOutput_Inr_iff example_recipient sam_nonempty)

text \<open>
  Claim C4: in the report that the aggregator builds, each of \<open>totals.ads\<close>,
  \<open>totals.keywords\<close> and \<open>totals.assets\<close> is the sum of that count over the payloads of
  the results that returned a value which parsed (to a truthy value; a missing count is
  \<open>0\<close>, as \<open>|| 0\<close> reads it); a result without a return value, or with one that does not
  parse, is not among these payloads and adds nothing.
\<close>

theorem merged_totals_are_sums:
  assumes "generateOutput cfg h results contextStr = Inr out"
  shows "sum_ads (totals (merged out)) =
           sum_list (map (payload_count pt_ads) (parsed_payloads (JSON_parse_payload h) results)) \<and>
         sum_keywords (totals (merged out)) =
           sum_list (map (payload_count pt_keywords) (parsed_payloads (JSON_parse_payload h) results)) \<and>
         sum_assets (totals (merged out)) =
           sum_list (map (payload_count pt_assets) (parsed_payloads (JSON_parse_payload h) results))"
  using generateOutput_merged [OF assms] by simp

text \<open>Claim C4 on four results, one of which carries a payload with the counts 2, 1 and 0.\<close>

theorem merged_totals_are_sums_witness:
  "\<exists>out. generateOutput CONFIG (example_host []) example_results (JStr example_context_text) = Inr out \<and>
     sum_ads (totals (merged out)) = 2 \<and> sum_keywords (totals (merged out)) = 1 \<and>
     sum_assets (totals (merged out)) = 0"
proof -
  obtain out where
    out: "generateOutput CONFIG (example_host []) example_results (JStr example_context_text) = Inr out"
    using example_runs by blast
  from merged_totals_are_sums [OF out] have
    "sum_ads (totals (merged out)) = 2 \<and> sum_keywords (totals (merged out)) = 1 \<and>
     sum_assets (totals (merged out)) = 0"
    by (simp add: example_parsed payload_count_def example_payload_def)
  with out show ?thesis by blast
qed

text \<open>
  Claim C10: in the report that the aggregator builds, \<open>totals.accounts\<close> is the number
  of rows, and the rows are, in order, one row for each result whose return value parsed
  (to a truthy value, which is what \<open>if (!payload) continue\<close> lets through) and none
  for any other result.
\<close>

theorem accounts_is_rows_length:
  assumes "generateOutput cfg h results contextStr = Inr out"
  shows "accounts (totals (merged out)) = length (rows (merged out)) \<and>
         rows (merged out) = map payload_row (parsed_payloads (JSON_parse_payload h) results)"
  using generateOutput_merged [OF assms] by simp

text \<open>Claim C10 on the four results: one account, one row.\<close>

theorem accounts_is_rows_length_witness:
  "\<exists>out. generateOutput CONFIG (example_host []) example_results (JStr example_context_text) = Inr out \<and>
     accounts (totals (merged out)) = 1 \<and> rows (merged out) = [payload_row example_payload]"
proof -
  obtain out where
    out: "generateOutput CONFIG (example_host []) example_results (JStr example_context_text) = Inr out"
    using example_runs by blast
  from accounts_is_rows_length [OF out] have
    "accounts (totals (merged out)) = 1 \<and> rows (merged out) = [payload_row example_payload]"
    by (simp add: example_parsed)
  with out show ?thesis by blast
qed

lemma merge_loop_label [simp]: "label (merge_loop P results m) = label m"
  by (simp add: merge_loop_eq)

lemma String_nat_digits [simp]:
  "String_nat 0 = js ''0''" "String_nat 1 = js ''1''" "String_nat (Suc 0) = js ''1''"
  "String_nat 2 = js ''2''"
  by (simp_all add: String_nat.simps js_def)

lemma generateOutput_label:
  assumes "generateOutput cfg h results contextStr = Inr out"
  shows "label (merged out) =
           (case parse_context h contextStr of
              None \<Rightarrow> JStr (js ''(Unlabeled Group)'')
            | Some c \<Rightarrow> (if truthy (ctx_label c) then ctx_label c
                         else JStr (js ''(Unlabeled Group)'')))"
  using assms
  by (auto simp: generateOutput_def Let_def split: if_splits)

text \<open>
  Claim C6: the subject line of a run is the prefix, the label and the flag, separated by
  dashes, followed by \<open>(Ads:a, KW:k, Assets:s)\<close>, where the prefix is \<open>CONFIG.SUBJECT_PREFIX\<close> (or \<open>Disapprovals\<close> when that is
  empty), \<open>a\<close>, \<open>k\<close>, \<open>s\<close> are the merged totals, and the flag is \<open>FOUND\<close> when
  \<open>a + k + s > 0\<close> and \<open>NONE\<close> otherwise.
\<close>

theorem subject_line_format:
  assumes "generateOutput cfg h results contextStr = Inr out"
  shows "subject out =
           (if SUBJECT_PREFIX cfg \<noteq> [] then SUBJECT_PREFIX cfg else js ''Disapprovals'') @
           [0x20, em_dash, 0x20] @ ToString (label (merged out)) @ [0x20, em_dash, 0x20] @
           (if sum_ads (totals (merged out)) + sum_keywords (totals (merged out)) +
               sum_assets (totals (merged out)) > 0
            then js ''FOUND'' else js ''NONE'') @
           js '' (Ads:'' @ String_nat (sum_ads (totals (merged out))) @
           js '', KW:'' @ String_nat (sum_keywords (totals (merged out))) @
           js '', Assets:'' @ String_nat (sum_assets (totals (merged out))) @ js '')''"
  using generateOutput_subject [OF assms] by (simp add: buildSubject_def Let_def)

lemma Sam_truthy: "js ''Managed by Sam'' \<noteq> []"
  by (simp add: js_def)

text \<open>Claim C6 on the end-to-end example of the specification.\<close>

theorem subject_line_format_witness:
  "\<exists>out. generateOutput CONFIG (example_host []) example_results (JStr example_context_text) = Inr out \<and>
     subject out =
       warning_sign # js '' Disapprovals '' @ [em_dash] @ js '' Managed by Sam '' @ [em_dash] @
       js '' FOUND (Ads:2, KW:1, Assets:0)''"
proof -
  obtain out where
    out: "generateOutput CONFIG (example_host []) example_results (JStr example_context_text) = Inr out"
    using example_runs by blast
  have l: "label (merged out) = JStr (js ''Managed by Sam'')"
    using generateOutput_label [OF out]
    by (simp add: parse_context_def example_host_def js_or_def Sam_truthy)
  have t: "sum_ads (totals (merged out)) = 2" "sum_keywords (totals (merged out)) = 1"
    "sum_assets (totals (merged out)) = 0"
    using generateOutput_merged [OF out]
    by (simp_all add: example_parsed payload_count_def example_payload_def)
  have p: "SUBJECT_PREFIX CONFIG = warning_sign # js '' Disapprovals''"
    by (simp add: CONFIG_def)
  from subject_line_format [OF out] have
    "subject out =
       warning_sign # js '' Disapprovals '' @ [em_dash] @ js '' Managed by Sam '' @ [em_dash] @
       js '' FOUND (Ads:2, KW:1, Assets:0)''"
    by (simp add: l t p) (simp add: js_def)
  with out show ?thesis by blast
qed

lemma html_array_clock:
  "concat (html_array cfg p n1 l m) = concat (html_array cfg p n2 l m) \<longleftrightarrow> n1 = n2"
  by (simp add: html_array_def sent_line_def)

lemma html_array_split:
  "\<exists>front rear. \<forall>now. concat (html_array cfg p now l m) = front @ now @ rear"
proof -
  have "\<forall>now. concat (html_array cfg p now l m) =
          (concat (butlast (butlast (html_array cfg p [] l m))) @ 
           js ''<p style=\"margin-top:18px;color:#666;font-size:12px;\">Sent '') @ now @
          ((if p then js '' (PREVIEW MODE '' @ [en_dash] @ js '' no changes applied)'' else []) @
           js ''</p>'' @ js ''</div>'')"
    by (simp add: html_array_def sent_line_def butlast_append)
  then show ?thesis by blast
qed

lemma generateOutput_html:
  assumes "generateOutput cfg h results contextStr = Inr out"
  shows "htmlBody out =
           concat (html_array cfg (PREVIEW h) (Date_toLocaleString h) (label (merged out)) (merged out))"
  using assms
  by (auto simp: generateOutput_def Let_def split: if_splits)

lemma generateOutput_merged_clock:
  assumes "generateOutput cfg (h\<lparr>Date_toLocaleString := n1\<rparr>) results contextStr = Inr o1"
      and "generateOutput cfg (h\<lparr>Date_toLocaleString := n2\<rparr>) results contextStr = Inr o2"
  shows "merged o1 = merged o2"
  using assms
  by (auto simp: generateOutput_def Let_def parse_context_def split: if_splits)

lemma generateOutput_html_clock:
  assumes "generateOutput cfg (h\<lparr>Date_toLocaleString := n1\<rparr>) results contextStr = Inr o1"
      and "generateOutput cfg (h\<lparr>Date_toLocaleString := n2\<rparr>) results contextStr = Inr o2"
  shows "(htmlBody o1 = htmlBody o2 \<longleftrightarrow> n1 = n2) \<and>
         (\<exists>front rear. htmlBody o1 = front @ n1 @ rear \<and> htmlBody o2 = front @ n2 @ rear)"
proof -
  have m: "merged o1 = merged o2"
    by (rule generateOutput_merged_clock [OF assms])
  have h1: "htmlBody o1 = concat (html_array cfg (PREVIEW h) n1 (label (merged o2)) (merged o2))"
    using generateOutput_html [OF assms(1)] m by simp
  have h2: "htmlBody o2 = concat (html_array cfg (PREVIEW h) n2 (label (merged o2)) (merged o2))"
    using generateOutput_html [OF assms(2)] by simp
  obtain front rear where
    "\<forall>now. concat (html_array cfg (PREVIEW h) now (label (merged o2)) (merged o2)) = front @ now @ rear"
    using html_array_split by blast
  then have "htmlBody o1 = front @ n1 @ rear \<and> htmlBody o2 = front @ n2 @ rear"
    by (simp add: h1 h2)
  then show ?thesis
    by (auto simp: h1 h2 html_array_clock)
qed

text \<open>
  Claim C7, as amended: two runs of the aggregator on the same worker results and the same
  context string produce HTML bodies that are the same text around the local time string
  of the closing \<open>Sent ...\<close> paragraph, which each run reads from the clock; the two
  bodies are identical exactly when the two time strings are.
\<close>

theorem html_identical_up_to_clock:
  assumes "generateOutput cfg (h\<lparr>Date_toLocaleString := n1\<rparr>) results contextStr = Inr o1"
      and "generateOutput cfg (h\<lparr>Date_toLocaleString := n2\<rparr>) results contextStr = Inr o2"
  shows "(htmlBody o1 = htmlBody o2 \<longleftrightarrow> n1 = n2) \<and>
         (\<exists>front rear. htmlBody o1 = front @ n1 @ rear \<and> htmlBody o2 = front @ n2 @ rear)"
  by (rule generateOutput_html_clock [OF assms])

lemma example_host_clock [simp]: "(example_host n)\<lparr>Date_toLocaleString := n'\<rparr> = example_host n'"
  by (simp add: example_host_def)

lemma clock_strings [simp]: "js ''1/1/2026, 9:00:00 AM'' \<noteq> js ''1/1/2026, 9:00:01 AM''"
  by (simp add: js_def)

text \<open>Claim C7 as amended, on two runs one second apart.\<close>

theorem html_identical_up_to_clock_witness:
  "\<exists>o1 o2.
     generateOutput CONFIG (example_host (js ''1/1/2026, 9:00:00 AM'')) example_results
       (JStr example_context_text) = Inr o1 \<and>
     generateOutput CONFIG (example_host (js ''1/1/2026, 9:00:01 AM'')) example_results
       (JStr example_context_text) = Inr o2 \<and>
     htmlBody o1 \<noteq> htmlBody o2 \<and>
     (\<exists>front rear. htmlBody o1 = front @ js ''1/1/2026, 9:00:00 AM'' @ rear \<and>
                   htmlBody o2 = front @ js ''1/1/2026, 9:00:01 AM'' @ rear)"
proof -
  obtain o1 where o1:
    "generateOutput CONFIG (example_host (js ''1/1/2026, 9:00:00 AM'')) example_results
       (JStr example_context_text) = Inr o1"
    using example_runs by blast
  obtain o2 where o2:
    "generateOutput CONFIG (example_host (js ''1/1/2026, 9:00:01 AM'')) example_results
       (JStr example_context_text) = Inr o2"
    using example_runs by blast
  from html_identical_up_to_clock [where cfg = CONFIG and h = "example_host []"
      and ?n1.0 = "js ''1/1/2026, 9:00:00 AM''" and ?n2.0 = "js ''1/1/2026, 9:00:01 AM''"
      and results = example_results and contextStr = "JStr example_context_text"
      and ?o1.0 = o1 and ?o2.0 = o2] o1 o2
  have "htmlBody o1 \<noteq> htmlBody o2 \<and>
     (\<exists>front rear. htmlBody o1 = front @ js ''1/1/2026, 9:00:00 AM'' @ rear \<and>
                   htmlBody o2 = front @ js ''1/1/2026, 9:00:01 AM'' @ rear)"
    by simp
  with o1 o2 show ?thesis by blast
qed

text \<open>
  Against claim C7 as stated: the same results and the same context string, aggregated at
  two different times, give two different HTML bodies.
\<close>

theorem same_inputs_different_html:
  "html_of (generateOutput CONFIG (example_host (js ''1/1/2026, 9:00:00 AM'')) example_results
      (JStr example_context_text)) \<noteq>
   html_of (generateOutput CONFIG (example_host (js ''1/1/2026, 9:00:01 AM'')) example_results
      (JStr example_context_text))"
proof -
  obtain o1 where o1:
    "generateOutput CONFIG (example_host (js ''1/1/2026, 9:00:00 AM'')) example_results
       (JStr example_context_text) = Inr o1"
    using example_runs by blast
  obtain o2 where o2:
    "generateOutput CONFIG (example_host (js ''1/1/2026, 9:00:01 AM'')) example_results
       (JStr example_context_text) = Inr o2"
    using example_runs by blast
  from generateOutput_html_clock [where cfg = CONFIG and h = "example_host []"
      and ?n1.0 = "js ''1/1/2026, 9:00:00 AM''" and ?n2.0 = "js ''1/1/2026, 9:00:01 AM''"
      and results = example_results and contextStr = "JStr example_context_text"
      and ?o1.0 = o1 and ?o2.0 = o2] o1 o2
  have "htmlBody o1 \<noteq> htmlBody o2"
    by simp
  then show ?thesis
    by (simp add: html_of_def o1 o2)
qed

section \<open>Properties of the HTML helpers\<close>

lemma replace_all_removes: "c \<notin> set r \<Longrightarrow> c \<notin> set (replace_all c r s)"
  by (auto simp: replace_all_def)

lemma replace_all_adds_nothing:
  "x \<notin> set s \<Longrightarrow> x \<notin> set r \<Longrightarrow> x \<notin> set (replace_all c r s)"
  by (auto simp: replace_all_def split: if_splits)

lemma entity_chars [simp]:
  "0x3C \<notin> set (js ''&lt;'')" "0x3C \<notin> set (js ''&gt;'')" "0x3E \<notin> set (js ''&gt;'')"
  by (simp_all add: js_def)

lemma escHtml_no_lt: "0x3C \<notin> set (escHtml v)"
  by (simp add: escHtml_def replace_all_removes replace_all_adds_nothing)

lemma escHtml_no_gt: "0x3E \<notin> set (escHtml v)"
  by (simp add: escHtml_def replace_all_removes)

lemma angle_brackets_append [simp]:
  "angle_brackets (xs @ ys) = angle_brackets xs @ angle_brackets ys"
  by (simp add: angle_brackets_def)

lemma angle_brackets_escHtml [simp]: "angle_brackets (escHtml v) = []"
  using escHtml_no_lt [of v] escHtml_no_gt [of v]
  by (auto simp: angle_brackets_def filter_empty_conv)

lemma angle_brackets_td [simp]: "angle_brackets (td v) = js ''<><>''"
  by (simp add: td_def) (simp add: angle_brackets_def js_def)

lemma angle_brackets_tr [simp]:
  "angle_brackets tr_open = js ''<>''" "angle_brackets (js ''</tr>'') = js ''<>''"
  by (simp_all add: angle_brackets_def tr_open_def js_def)

lemma angle_brackets_rows:
  "angle_brackets (ad_tr ad) = js ''<>'' @ concat (replicate 6 (js ''<><>'')) @ js ''<>''"
  "angle_brackets (keyword_tr kw) = js ''<>'' @ concat (replicate 7 (js ''<><>'')) @ js ''<>''"
  "angle_brackets (asset_tr as) = js ''<>'' @ concat (replicate 5 (js ''<><>'')) @ js ''<>''"
  by (simp_all add: ad_tr_def keyword_tr_def asset_tr_def eval_nat_numeral)

text \<open>Decimal digits are no angle brackets.\<close>

lemma digit_not_angle:
  "n < 10 \<Longrightarrow> (of_nat (48 + n) :: 16 word) \<noteq> 0x3C \<and> (of_nat (48 + n) :: 16 word) \<noteq> 0x3E"
proof -
  assume "n < 10"
  then have "n \<in> {0, 1, 2, 3, 4, 5, 6, 7, 8, 9}" by auto
  then show ?thesis by auto
qed

lemma angle_brackets_String_nat [simp]: "angle_brackets (String_nat n) = []"
proof (induction n rule: String_nat.induct)
  case (1 n)
  show ?case
  proof (cases "n < 10")
    case True
    with digit_not_angle [of n] show ?thesis
      by (subst String_nat.simps) (simp add: angle_brackets_def)
  next
    case False
    have "n mod 10 < 10" by simp
    from digit_not_angle [OF this] "1.IH" [OF False] False show ?thesis
      by (subst String_nat.simps) (simp add: angle_brackets_def)
  qed
qed

lemma angle_brackets_Nil [simp]: "angle_brackets [] = []"
  by (simp add: angle_brackets_def)

lemma angle_brackets_Cons:
  "angle_brackets (c # s) = (if c = 0x3C \<or> c = 0x3E then c # angle_brackets s else angle_brackets s)"
  by (simp add: angle_brackets_def)

lemma angle_brackets_concat: "angle_brackets (concat xs) = concat (map angle_brackets xs)"
  by (induction xs) simp_all

lemma angle_brackets_trs:
  assumes "\<And>x y. angle_brackets (tr x) = angle_brackets (tr y)" and "length items = length items'"
  shows "concat (map (\<lambda>x. angle_brackets (tr x)) items) =
         concat (map (\<lambda>x. angle_brackets (tr x)) items')"
  using assms(2)
proof (induction items items' rule: list_induct2)
  case Nil
  show ?case by simp
next
  case (Cons x xs y ys)
  with assms(1) [of x y] show ?case by simp
qed

lemma angle_brackets_category:
  assumes "\<And>x y. angle_brackets (tr x) = angle_brackets (tr y)" and "length items = length items'"
  shows "angle_brackets (concat (category_html cfg title thead tr items)) =
         angle_brackets (concat (category_html cfg title thead tr items'))"
proof -
  from assms(2) have e: "items = [] \<longleftrightarrow> items' = []" by auto
  show ?thesis
    using angle_brackets_trs [OF assms] assms(2) e
    by (simp add: category_html_def angle_brackets_concat sectionHeader_def comp_def)
qed

lemma angle_brackets_tr_const:
  "angle_brackets (ad_tr a) = angle_brackets (ad_tr a')"
  "angle_brackets (keyword_tr k) = angle_brackets (keyword_tr k')"
  "angle_brackets (asset_tr s) = angle_brackets (asset_tr s')"
  by (simp_all add: angle_brackets_rows)

lemma angle_brackets_row_html:
  assumes "row_shape row = row_shape row'"
  shows "angle_brackets (concat (row_html cfg row)) = angle_brackets (concat (row_html cfg row'))"
proof -
  from assms have l: "length (row_ads row) = length (row_ads row')"
    "length (row_keywords row) = length (row_keywords row')"
    "length (row_assets row) = length (row_assets row')"
    by (simp_all add: row_shape_def)
  show ?thesis
    using angle_brackets_category [of ad_tr, OF angle_brackets_tr_const(1) l(1)]
      angle_brackets_category [of keyword_tr, OF angle_brackets_tr_const(2) l(2)]
      angle_brackets_category [of asset_tr, OF angle_brackets_tr_const(3) l(3)]
    by (simp add: row_html_def)
qed

lemma angle_brackets_rows_html:
  assumes "map row_shape rs = map row_shape rs'"
  shows "angle_brackets (concat (concat (map (row_html cfg) rs))) =
         angle_brackets (concat (concat (map (row_html cfg) rs')))"
proof -
  from assms have "length rs = length rs'"
    by (metis length_map)
  then show ?thesis
    using assms
  proof (induction rs rs' rule: list_induct2)
    case Nil
    show ?case by simp
  next
    case (Cons r rs r' rs')
    then show ?case
      using angle_brackets_row_html [of r r' cfg] by simp
  qed
qed

lemma angle_brackets_html_array:
  assumes "map row_shape (rows m) = map row_shape (rows m')"
  shows "angle_brackets (concat (html_array cfg p now l m)) =
         angle_brackets (concat (html_array cfg p now l' m'))"
proof -
  from assms have e: "rows m = [] \<longleftrightarrow> rows m' = []"
    by (metis map_is_Nil_conv)
  show ?thesis
    using angle_brackets_rows_html [OF assms, of cfg] e
    by (simp add: html_array_def sent_line_def angle_brackets_Cons em_dash_def)
qed

lemma piece_in_concat:
  assumes "piece \<in> set xs"
  shows "\<exists>front rear. concat xs = front @ piece @ rear"
proof -
  from assms obtain ys zs where "xs = ys @ piece # zs"
    by (meson split_list)
  then have "concat xs = concat ys @ piece @ concat zs"
    by simp
  then show ?thesis by blast
qed

lemma tr_in_category:
  "x \<in> set items \<Longrightarrow> tr x \<in> set (category_html cfg title thead tr items)"
  by (auto simp: category_html_def)

lemma category_in_html_array:
  assumes "row \<in> set (rows m)" and "piece \<in> set (row_html cfg row)"
  shows "piece \<in> set (html_array cfg p now l m)"
proof -
  from assms(1) have "rows m \<noteq> []" by auto
  with assms show ?thesis
    by (auto simp: html_array_def)
qed

lemma trs_in_html_array:
  assumes "row \<in> set (rows m)"
  shows "ad \<in> set (row_ads row) \<Longrightarrow> ad_tr ad \<in> set (html_array cfg p now l m)"
    and "kw \<in> set (row_keywords row) \<Longrightarrow> keyword_tr kw \<in> set (html_array cfg p now l m)"
    and "asset \<in> set (row_assets row) \<Longrightarrow> asset_tr asset \<in> set (html_array cfg p now l m)"
proof -
  show "ad \<in> set (row_ads row) \<Longrightarrow> ad_tr ad \<in> set (html_array cfg p now l m)"
    using tr_in_category [of ad "row_ads row" ad_tr cfg "js ''Ads''" ads_thead]
    by (intro category_in_html_array [OF assms]) (simp add: row_html_def)
  show "kw \<in> set (row_keywords row) \<Longrightarrow> keyword_tr kw \<in> set (html_array cfg p now l m)"
    using tr_in_category [of kw "row_keywords row" keyword_tr cfg "js ''Keywords''" keywords_thead]
    by (intro category_in_html_array [OF assms]) (simp add: row_html_def)
  show "asset \<in> set (row_assets row) \<Longrightarrow> asset_tr asset \<in> set (html_array cfg p now l m)"
    using tr_in_category [of asset "row_assets row" asset_tr cfg
        "js ''Assets / Extensions (best-effort)''" assets_thead]
    by (intro category_in_html_array [OF assms]) (simp add: row_html_def)
qed

lemma body_holds_rows:
  assumes "generateOutput cfg h results contextStr = Inr out" and "row \<in> set (rows (merged out))"
  shows "ad \<in> set (row_ads row) \<Longrightarrow> \<exists>front rear. htmlBody out = front @ ad_tr ad @ rear"
    and "kw \<in> set (row_keywords row) \<Longrightarrow> \<exists>front rear. htmlBody out = front @ keyword_tr kw @ rear"
    and "asset \<in> set (row_assets row) \<Longrightarrow> \<exists>front rear. htmlBody out = front @ asset_tr asset @ rear"
  unfolding generateOutput_html [OF assms(1)]
  using trs_in_html_array [OF assms(2)] piece_in_concat by blast+

lemma body_skeleton:
  assumes "generateOutput cfg h results contextStr = Inr out"
      and "generateOutput cfg h' results' contextStr' = Inr out'"
      and "PREVIEW h' = PREVIEW h" and "Date_toLocaleString h' = Date_toLocaleString h"
      and "map row_shape (rows (merged out')) = map row_shape (rows (merged out))"
  shows "angle_brackets (htmlBody out') = angle_brackets (htmlBody out)"
  unfolding generateOutput_html [OF assms(1)] generateOutput_html [OF assms(2)] assms(3,4)
  by (rule angle_brackets_html_array [OF assms(5)])

text \<open>
  Claim C9: \<open>escHtml\<close> returns a string without \<open><\<close> and without \<open>>\<close>, and the empty
  string on \<open>null\<close> and \<open>undefined\<close>; a table cell is the escaped value between the two
  tags of \<open>td\<close>; in the HTML body that a run of \<open>generateOutput\<close> builds, every ad,
  keyword and asset of every account row is rendered as a table row made of such cells, one
  for each of its fields; and the \<open><\<close> and \<open>>\<close> of the body are the same for all runs
  with the same configuration, clock and preview flag whose reports list the same numbers of
  items, whatever the account names, the label, the counts and the fields of the items hold:
  nothing that comes from an entity reaches the body unescaped.
\<close>

theorem cells_are_escaped:
  assumes "generateOutput cfg h results contextStr = Inr out"
  shows
   \<open>0x3C \<notin> set (escHtml v) \<and> 0x3E \<notin> set (escHtml v) \<and>
    escHtml JNull = [] \<and> escHtml JUndefined = [] \<and>
    td v = js ''<td style="vertical-align:top;border-top:1px solid #eee;">'' @ escHtml v @ js ''</td>'' \<and>
    (\<forall>row \<in> set (rows (merged out)).
       (\<forall>ad \<in> set (row_ads row).
          \<exists>front rear. htmlBody out =
            front @
            (tr_open @ td (ai_type ad) @ td (ai_campaign ad) @ td (ai_adGroup ad) @
             td (ai_status ad) @ td (joined (js '', '') (ai_topics ad)) @
             td (joined (js ''; '') (ai_reasons ad)) @ js ''</tr>'') @ rear) \<and>
       (\<forall>kw \<in> set (row_keywords row).
          \<exists>front rear. htmlBody out =
            front @
            (tr_open @ td (ki_text kw) @ td (ki_matchType kw) @ td (ki_campaign kw) @
             td (ki_adGroup kw) @ td (ki_status kw) @ td (joined (js '', '') (ki_topics kw)) @
             td (joined (js ''; '') (ki_reasons kw)) @ js ''</tr>'') @ rear) \<and>
       (\<forall>asset \<in> set (row_assets row).
          \<exists>front rear. htmlBody out =
            front @
            (tr_open @ td (si_assetType asset) @ td (si_name asset) @ td (si_status asset) @
             td (joined (js '', '') (si_topics asset)) @
             td (joined (js ''; '') (si_reasons asset)) @ js ''</tr>'') @ rear)) \<and>
    (\<forall>h' results' contextStr' out'.
       generateOutput cfg h' results' contextStr' = Inr out' \<and>
       PREVIEW h' = PREVIEW h \<and> Date_toLocaleString h' = Date_toLocaleString h \<and>
       map row_shape (rows (merged out')) = map row_shape (rows (merged out)) \<longrightarrow>
       angle_brackets (htmlBody out') = angle_brackets (htmlBody out))\<close>
proof -
  have esc: "0x3C \<notin> set (escHtml v) \<and> 0x3E \<notin> set (escHtml v) \<and>
    escHtml JNull = [] \<and> escHtml JUndefined = []"
    by (simp add: escHtml_no_lt escHtml_no_gt) (simp add: escHtml_def)
  have cell: \<open>td v = js ''<td style="vertical-align:top;border-top:1px solid #eee;">'' @ escHtml v @ js ''</td>''\<close>
    by (simp add: td_def)
  have present: "\<forall>row \<in> set (rows (merged out)).
       (\<forall>ad \<in> set (row_ads row). \<exists>front rear. htmlBody out = front @ ad_tr ad @ rear) \<and>
       (\<forall>kw \<in> set (row_keywords row). \<exists>front rear. htmlBody out = front @ keyword_tr kw @ rear) \<and>
       (\<forall>asset \<in> set (row_assets row). \<exists>front rear. htmlBody out = front @ asset_tr asset @ rear)"
    using body_holds_rows [OF assms] by blast
  have skeleton: "\<forall>h' results' contextStr' out'.
       generateOutput cfg h' results' contextStr' = Inr out' \<and>
       PREVIEW h' = PREVIEW h \<and> Date_toLocaleString h' = Date_toLocaleString h \<and>
       map row_shape (rows (merged out')) = map row_shape (rows (merged out)) \<longrightarrow>
       angle_brackets (htmlBody out') = angle_brackets (htmlBody out)"
    using body_skeleton [OF assms] by blast
  from esc cell present skeleton show ?thesis
    unfolding ad_tr_def keyword_tr_def asset_tr_def by blast
qed

lemma hostile_text [simp]: "hostile_payload_text \<noteq> []"
  by (simp add: hostile_payload_text_def js_def)

lemma hostile_parsed:
  "parsed_payloads (JSON_parse_payload hostile_host) hostile_results = [hostile_payload]"
  by (simp add: parsed_payloads_Cons hostile_results_def hostile_host_def parseSafe_def)

lemma hostile_recipient:
  "ctx_string (parse_context hostile_host (JStr example_context_text)) ctx_to (DEFAULT_TO CONFIG)
     = js ''sam@example.com''"
  by (simp add: ctx_string_def parse_context_def hostile_host_def example_host_def js_or_def
      trim_sam sam_nonempty)

lemma hostile_runs:
  "\<exists>out. generateOutput CONFIG hostile_host hostile_results (JStr example_context_text) = Inr out"
  by (simp add: generateOutput_Inr_iff hostile_recipient sam_nonempty)

lemma hostile_host_env [simp]:
  "PREVIEW hostile_host = PREVIEW (example_host [])"
  "Date_toLocaleString hostile_host = Date_toLocaleString (example_host [])"
  by (simp_all add: hostile_host_def)

lemma example_shapes [simp]:
  "row_shape (payload_row example_payload) = (2, 1, 0)"
  "row_shape (payload_row hostile_payload) = (2, 1, 0)"
  by (simp_all add: row_shape_def payload_row_def example_payload_def hostile_payload_def
      or_empty_def)

text \<open>
  Claim C9 on two runs: the example results, and a result of the same shape whose fields
  hold a script element, a closing cell tag and an image element.
\<close>

theorem cells_are_escaped_witness:
  \<open>\<exists>out out'.
     generateOutput CONFIG (example_host []) example_results (JStr example_context_text) = Inr out \<and>
     generateOutput CONFIG hostile_host hostile_results (JStr example_context_text) = Inr out' \<and>
     angle_brackets (htmlBody out') = angle_brackets (htmlBody out) \<and>
     (\<exists>front rear. htmlBody out' =
        front @
        (tr_open @ td (JStr (js ''<script>alert(1)</script>'')) @ td (JStr (js ''Campaign 1'')) @
         td (JStr (js ''Ad group 1'')) @ td (JStr (js ''DISAPPROVED'')) @
         td (JStr (js ''</td>'')) @ td (JStr []) @ js ''</tr>'') @ rear) \<and>
     0x3C \<notin> set (escHtml (JStr (js ''<script>alert(1)</script>'')))\<close>
proof -
  obtain out where
    out: "generateOutput CONFIG (example_host []) example_results (JStr example_context_text) = Inr out"
    using example_runs by blast
  obtain out' where
    out': "generateOutput CONFIG hostile_host hostile_results (JStr example_context_text) = Inr out'"
    using hostile_runs by blast
  have r: "rows (merged out) = [payload_row example_payload]"
    using generateOutput_merged(1) [OF out] by (simp add: example_parsed)
  have r': "rows (merged out') = [payload_row hostile_payload]"
    using generateOutput_merged(1) [OF out'] by (simp add: hostile_parsed)
  have shape: "map row_shape (rows (merged out')) = map row_shape (rows (merged out))"
    by (simp add: r r')
  have a: "hostile_ad \<in> set (row_ads (payload_row hostile_payload))"
    by (simp add: payload_row_def hostile_payload_def or_empty_def)
  have f: "ai_type hostile_ad = JStr (js ''<script>alert(1)</script>'')"
    "ai_campaign hostile_ad = JStr (js ''Campaign 1'')"
    "ai_adGroup hostile_ad = JStr (js ''Ad group 1'')"
    "ai_status hostile_ad = JStr (js ''DISAPPROVED'')"
    "joined (js '', '') (ai_topics hostile_ad) = JStr (js ''</td>'')"
    "joined (js ''; '') (ai_reasons hostile_ad) = JStr []"
    by (simp_all add: hostile_ad_def joined_def)
  note first = cells_are_escaped [OF out, of "JStr (js ''<script>alert(1)</script>'')"]
  note second = cells_are_escaped [OF out', of JNull]
  from first out' shape have s: "angle_brackets (htmlBody out') = angle_brackets (htmlBody out)"
    by (metis hostile_host_env)
  from first have e: "0x3C \<notin> set (escHtml (JStr (js ''<script>alert(1)</script>'')))"
    by blast
  from second a have "\<exists>front rear. htmlBody out' =
        front @
        (tr_open @ td (ai_type hostile_ad) @ td (ai_campaign hostile_ad) @
         td (ai_adGroup hostile_ad) @ td (ai_status hostile_ad) @
         td (joined (js '', '') (ai_topics hostile_ad)) @
         td (joined (js ''; '') (ai_reasons hostile_ad)) @ js ''</tr>'') @ rear"
    unfolding r' by simp
  then have p: "\<exists>front rear. htmlBody out' =
        front @
        (tr_open @ td (JStr (js ''<script>alert(1)</script>'')) @ td (JStr (js ''Campaign 1'')) @
         td (JStr (js ''Ad group 1'')) @ td (JStr (js ''DISAPPROVED'')) @
         td (JStr (js ''</td>'')) @ td (JStr []) @ js ''</tr>'') @ rear"
    unfolding f .
  from out out' s p e show ?thesis by blast
qed

lemma escHtml_example:
  \<open>escHtml (JStr (js ''<b>Tom & Jerry</b>'')) = js ''&lt;b&gt;Tom &amp; Jerry&lt;/b&gt;''\<close>
  by (simp add: escHtml_def replace_all_def js_def)

section \<open>Properties of processGroup and main\<close>

lemma main_loop_append:
  "main_loop cfg pf (xs @ ys) w =
     (case main_loop cfg pf xs w of Inl e \<Rightarrow> Inl e | Inr w' \<Rightarrow> main_loop cfg pf ys w')"
  by (induction xs arbitrary: w) (auto split: sum.splits)

lemma processGroup_skip:
  "group_recipient cfg grp = [] \<Longrightarrow>
   processGroup cfg pf grp w = Inr (w\<lparr>logs := logs w @ [SkippingLabel (lg_label grp)]\<rparr>)"
  by (simp add: processGroup_def)

text \<open>
  Claim C8: for a group whose resolved recipient is empty, \<open>processGroup\<close> returns the
  world it was given with one more log line, whatever the platform's fan-out would do (it is
  not called, and no mail is added to the outbox), and the loop of \<open>main\<close> goes on with the
  groups that follow.
\<close>

theorem missing_recipient_skips_group:
  assumes "group_recipient cfg grp = []"
  shows "processGroup cfg pf grp w = Inr (w\<lparr>logs := logs w @ [SkippingLabel (lg_label grp)]\<rparr>) \<and>
         main_loop cfg pf (pre @ grp # post) w =
           (case main_loop cfg pf pre w of
              Inl e \<Rightarrow> Inl e
            | Inr w' \<Rightarrow> main_loop cfg pf post (w'\<lparr>logs := logs w' @ [SkippingLabel (lg_label grp)]\<rparr>))"
  by (simp add: main_loop_append processGroup_skip [OF assms] split: sum.splits)

text \<open>
  Claim C8 on two groups without recipient, with no default recipient configured and a
  fan-out that would throw.
\<close>

theorem missing_recipient_skips_group_witness:
  "group_recipient (CONFIG\<lparr>DEFAULT_TO := []\<rparr>) unassigned_group = [] \<and>
   processGroup (CONFIG\<lparr>DEFAULT_TO := []\<rparr>) failing_platform unassigned_group
     \<lparr>logs = [], outbox = []\<rparr> =
     Inr \<lparr>logs = [SkippingLabel (JStr (js ''Unassigned''))], outbox = []\<rparr> \<and>
   main_loop (CONFIG\<lparr>DEFAULT_TO := []\<rparr>) failing_platform [unassigned_group, unassigned_group]
     \<lparr>logs = [], outbox = []\<rparr> =
     Inr \<lparr>logs = [SkippingLabel (JStr (js ''Unassigned'')), SkippingLabel (JStr (js ''Unassigned''))],
          outbox = []\<rparr>"
proof -
  have r: "group_recipient (CONFIG\<lparr>DEFAULT_TO := []\<rparr>) unassigned_group = []"
    by (simp add: group_recipient_def unassigned_group_def)
  have l: "lg_label unassigned_group = JStr (js ''Unassigned'')"
    by (simp add: unassigned_group_def)
  from missing_recipient_skips_group [OF r, of failing_platform "\<lparr>logs = [], outbox = []\<rparr>" "[]" "[unassigned_group]"]
    missing_recipient_skips_group [OF r, of failing_platform "\<lparr>logs = [SkippingLabel (JStr (js ''Unassigned''))], outbox = []\<rparr>" "[]" "[]"]
  show ?thesis
    by (simp add: r l)
qed

end
